theory Spec2Isabelle
  imports Complex_Main "HOL-Library.Word"
begin

section \<open>Sample frames\<close>

text \<open>
  \<^verbatim>\<open>Math_t\<close> (a double) and \<^verbatim>\<open>SampleType\<close> (a float or a double, depending on the
  generation of the engine) are both embedded as \<^typ>\<open>real\<close>: the arithmetic of the
  model is exact, so the conversions \<^verbatim>\<open>SampleType(...)\<close> and \<^verbatim>\<open>Math_t(...)\<close>
  between the two are the identity and rounding is not part of the model.
  \<^verbatim>\<open>StereoData\<close> is \<^verbatim>\<open>std::tuple<SampleType,SampleType>\<close>; \<^verbatim>\<open>Left\<close> and
  \<^verbatim>\<open>Right\<close> read its two components.
\<close>

type_synonym SampleType = real
type_synonym Math_t = real
type_synonym StereoData = "SampleType \<times> SampleType"

definition Left :: "StereoData \<Rightarrow> SampleType" where
  "Left s = fst s"

definition Right :: "StereoData \<Rightarrow> SampleType" where
  "Right s = snd s"

text \<open>The value-initialised frame \<^verbatim>\<open>StereoData()\<close>, also written
  \<^verbatim>\<open>StereoData(SampleType(0), SampleType(0))\<close>.\<close>

definition silence :: StereoData where
  "silence = (0, 0)"


section \<open>Echo (Echo.cpp)\<close>

text \<open>
  \<^verbatim>\<open>m_Echo\<close> is a double-ended queue of frames, head first; \<^verbatim>\<open>m_Ratio\<close> the decay
  ratio. The constructor fills the queue with \<^verbatim>\<open>sample_delay\<close> value-initialised
  frames.
\<close>

record Echo =
  m_Echo :: "StereoData list"
  m_Ratio :: Math_t

definition Echo_new :: "nat \<Rightarrow> Math_t \<Rightarrow> Echo" where
  "Echo_new sample_delay decay_ratio =
     \<lparr> m_Echo = replicate sample_delay silence, m_Ratio = decay_ratio \<rparr>"

text \<open>
  \<^verbatim>\<open>FilterSample\<close> reads \<^verbatim>\<open>m_Echo.front()\<close> and pops it. On an empty queue the
  front does not exist (the C++ library leaves the access undefined): the model
  returns \<open>None\<close> there. Otherwise it returns the frame \<^verbatim>\<open>out\<close> together with
  the updated object.
\<close>

definition FilterSample :: "Echo \<Rightarrow> StereoData \<Rightarrow> (StereoData \<times> Echo) option" where
  "FilterSample e dry =
     (case m_Echo e of
        [] \<Rightarrow> None
      | wet # rest \<Rightarrow>
          let out = (Left wet * m_Ratio e + Left dry, Right wet * m_Ratio e + Right dry)
          in Some (out, e\<lparr> m_Echo := rest @ [out] \<rparr>))"

text \<open>Successive calls of \<^verbatim>\<open>FilterSample\<close> on a sequence of input frames; the
  frames returned are collected in call order. The run stops with \<open>None\<close> at the
  first call that finds the queue empty.\<close>

fun FilterSamples :: "Echo \<Rightarrow> StereoData list \<Rightarrow> (StereoData list \<times> Echo) option" where
  "FilterSamples e [] = Some ([], e)"
| "FilterSamples e (dry # ins) =
     (case FilterSample e dry of
        None \<Rightarrow> None
      | Some (out, e') \<Rightarrow>
          (case FilterSamples e' ins of
             None \<Rightarrow> None
           | Some (outs, e'') \<Rightarrow> Some (out # outs, e'')))"


section \<open>Triangle oscillator (Triangle.cpp)\<close>

text \<open>
  The macros \<^verbatim>\<open>INC_RATE\<close> (the duration of one engine tick) and
  \<^verbatim>\<open>MONO_TO_STEREO\<close> are defined in a header that is not part of the sources at
  hand. \<^verbatim>\<open>INC_RATE\<close> is a parameter of the model.
\<close>

text \<open>Modelled from the spec: the macro \<^verbatim>\<open>MONO_TO_STEREO\<close>, whose definition is
  missing; the oscillator's output is its accumulator "duplicated to both channels".\<close>

definition MONO_TO_STEREO :: "SampleType \<Rightarrow> StereoData" where
  "MONO_TO_STEREO x = (x, x)"

record Triangle =
  m_Irate :: Math_t
  m_Inc :: Math_t

definition Triangle_new :: "Math_t \<Rightarrow> Math_t \<Rightarrow> Triangle" where
  "Triangle_new INC_RATE freq = \<lparr> m_Irate = 4 * freq * INC_RATE, m_Inc = 0 \<rparr>"

definition Triangle_SetFrequency :: "Math_t \<Rightarrow> Math_t \<Rightarrow> Triangle \<Rightarrow> Triangle" where
  "Triangle_SetFrequency INC_RATE freq t =
     (let freq' = (if m_Irate t < 0 then freq * (- 1) else freq)
      in t\<lparr> m_Irate := 4 * freq' * INC_RATE \<rparr>)"

definition Triangle_SendSample :: "Triangle \<Rightarrow> StereoData \<times> Triangle" where
  "Triangle_SendSample t =
     (let t1 = t\<lparr> m_Inc := m_Inc t + m_Irate t \<rparr>;
          t2 = (if m_Inc t1 \<ge> 1 \<or> m_Inc t1 \<le> - 1
                then t1\<lparr> m_Irate := - m_Irate t1,
                         m_Inc := (if m_Inc t1 \<ge> 1 then 2 - m_Inc t1 else - 2 - m_Inc t1) \<rparr>
                else t1)
      in (MONO_TO_STEREO (m_Inc t2), t2))"

text \<open>A sequence of calls on one oscillator; the frames of the \<^verbatim>\<open>SendSample\<close>
  calls are collected in call order.\<close>

datatype Triangle_call = Tri_SendSample | Tri_SetFrequency Math_t

fun Triangle_run :: "Math_t \<Rightarrow> Triangle \<Rightarrow> Triangle_call list \<Rightarrow> StereoData list \<times> Triangle" where
  "Triangle_run INC_RATE t [] = ([], t)"
| "Triangle_run INC_RATE t (Tri_SendSample # cs) =
     (let (s, t') = Triangle_SendSample t;
          (outs, t'') = Triangle_run INC_RATE t' cs
      in (s # outs, t''))"
| "Triangle_run INC_RATE t (Tri_SetFrequency f # cs) =
     Triangle_run INC_RATE (Triangle_SetFrequency INC_RATE f t) cs"


section \<open>Resampler (Tools/Resampler.cpp)\<close>

text \<open>
  The cursor \<^verbatim>\<open>m_Index\<close>, the increment and the playback speed are of type
  \<^verbatim>\<open>Math_t\<close>; the loop bounds are \<^verbatim>\<open>uint64_t\<close>, their difference wraps around.
  \<^verbatim>\<open>OCAE_INC_RATE\<close> (the duration of one engine tick) is a macro of a missing header
  and a parameter of the model. The source sample rate is an \<^verbatim>\<open>int32_t\<close>.
\<close>

record Resampler =
  m_Data :: "StereoData list"
  m_Index :: Math_t
  m_IndexIncrement :: Math_t
  m_PlaybackSpeed :: Math_t
  m_LoopStart :: "64 word"
  m_LoopEnd :: "64 word"

definition Resampler_new ::
  "Math_t \<Rightarrow> StereoData list \<Rightarrow> 32 word \<Rightarrow> 64 word \<Rightarrow> 64 word \<Rightarrow> Resampler" where
  "Resampler_new OCAE_INC_RATE AudioData SourceSampleRate LoopStart LoopEnd =
     \<lparr> m_Data = AudioData, m_Index = 0,
       m_IndexIncrement = of_int (sint SourceSampleRate) * OCAE_INC_RATE,
       m_PlaybackSpeed = 1, m_LoopStart = LoopStart, m_LoopEnd = LoopEnd \<rparr>"

definition SetPlaybackSpeed :: "Math_t \<Rightarrow> Resampler \<Rightarrow> Resampler" where
  "SetPlaybackSpeed playback r = r\<lparr> m_PlaybackSpeed := playback \<rparr>"

text \<open>
  Two operations of \<^verbatim>\<open>Process\<close> have no result on some inputs, and the model makes
  both a fault value. The conversion \<^verbatim>\<open>uint64_t(x)\<close> of a floating-point value
  truncates towards zero and is defined only when the truncated value fits the type:
  for \<open>- 1 < x < 2 ^ 64\<close>. \<^verbatim>\<open>m_Data[i]\<close> is defined only for \<open>i\<close> below the size
  of the vector. (The third fault, an integer division by zero, belongs to the WAV
  reader below.)
\<close>

datatype fault = FloatToUnsigned | IndexOutOfRange | DivisionByZero

definition to_uint64 :: "Math_t \<Rightarrow> 64 word option" where
  "to_uint64 x = (if - 1 < x \<and> x < 2 ^ 64 then Some (of_nat (nat \<lfloor>x\<rfloor>)) else None)"

definition at_index :: "'a list \<Rightarrow> 64 word \<Rightarrow> fault + 'a" where
  "at_index xs i = (if unat i < length xs then Inr (xs ! unat i) else Inl IndexOutOfRange)"

definition Process :: "Resampler \<Rightarrow> fault + (StereoData \<times> Resampler)" where
  "Process r =
     (case to_uint64 (m_Index r) of
        None \<Rightarrow> Inl FloatToUnsigned
      | Some i \<Rightarrow>
          if unat i \<ge> length (m_Data r) \<and> m_LoopEnd r = 0 then Inr (silence, r)
          else
            let fraction = m_Index r - real (unat i) in
            (case (if unat (i + 1) \<ge> length (m_Data r) \<and> m_LoopEnd r \<noteq> 0
                   then (case to_uint64 (m_Index r - real (unat (m_LoopEnd r - m_LoopStart r))) of
                           None \<Rightarrow> Inl FloatToUnsigned
                         | Some j \<Rightarrow> at_index (m_Data r) j)
                   else if unat (i + 1) \<ge> length (m_Data r)
                   then at_index (m_Data r) i
                   else at_index (m_Data r) (i + 1)) of
               Inl f \<Rightarrow> Inl f
             | Inr p1 \<Rightarrow>
                 (case at_index (m_Data r) i of
                    Inl f \<Rightarrow> Inl f
                  | Inr x \<Rightarrow>
                      let l = Left x + fraction * (Left p1 - Left x);
                          r' = Right x + fraction * (Right p1 - Right x);
                          sample = (l, r');
                          index1 = m_Index r + m_IndexIncrement r * m_PlaybackSpeed r;
                          index2 = (if index1 \<ge> real (unat (m_LoopEnd r)) \<and> m_LoopEnd r \<noteq> 0
                                    then index1 - real (unat (m_LoopEnd r - m_LoopStart r))
                                    else index1)
                      in Inr (sample, r\<lparr> m_Index := index2 \<rparr>))))"

text \<open>A sequence of calls on one Resampler; the frames returned by \<^verbatim>\<open>Process\<close> are
  collected in call order, and the run stops at the first fault.\<close>

datatype Resampler_call = Call_Process | Call_SetPlaybackSpeed Math_t

fun Resampler_run :: "Resampler \<Rightarrow> Resampler_call list \<Rightarrow> fault + (StereoData list \<times> Resampler)" where
  "Resampler_run r [] = Inr ([], r)"
| "Resampler_run r (Call_Process # cs) =
     (case Process r of
        Inl f \<Rightarrow> Inl f
      | Inr (s, r') \<Rightarrow>
          (case Resampler_run r' cs of
             Inl f \<Rightarrow> Inl f
           | Inr (outs, r'') \<Rightarrow> Inr (s # outs, r'')))"
| "Resampler_run r (Call_SetPlaybackSpeed p # cs) = Resampler_run (SetPlaybackSpeed p r) cs"


subsection \<open>Concrete Resamplers\<close>

text \<open>Two Resamplers used in the concrete runs below: one whose cursor is past the end of
  a two-frame buffer without a loop, and one built by the constructor over three frames
  with the loop window \<open>[0, 2)\<close> and the source rate equal to the tick rate.\<close>

definition past_end_resampler :: Resampler where
  "past_end_resampler =
     \<lparr> m_Data = [(1, 1), (2, 2)], m_Index = 5/2, m_IndexIncrement = 1,
       m_PlaybackSpeed = 3, m_LoopStart = 0, m_LoopEnd = 0 \<rparr>"

definition looping_resampler :: Resampler where
  "looping_resampler = Resampler_new (1/44100) [(1, 1), (2, 2), (3, 3)] 44100 0 2"

text \<open>The Resampler reached from a fresh one over two frames, without a loop, by setting
  the playback speed to \<open>2 ^ 64\<close> and calling \<^verbatim>\<open>Process\<close> once.\<close>

definition overshot_resampler :: Resampler where
  "overshot_resampler =
     \<lparr> m_Data = [(1, 1), (2, 2)], m_Index = 2 ^ 64, m_IndexIncrement = 1,
       m_PlaybackSpeed = 2 ^ 64, m_LoopStart = 0, m_LoopEnd = 0 \<rparr>"


section \<open>MethodTable (Tools/MethodTable.hpp)\<close>

text \<open>
  A \<^verbatim>\<open>Void_fn\<close> is a \<^verbatim>\<open>std::function<void(void*)>\<close>: it receives the address of the
  tuple of arguments and acts on the object that registered it. In the model the
  tuple is a value of type \<open>'a\<close>, the state the callable acts on is of type \<open>'s\<close>,
  and the callable is a function from the state before to the state after. The
  table is a \<^verbatim>\<open>std::unordered_map\<close>, whose \<^verbatim>\<open>at\<close> throws \<^verbatim>\<open>std::out_of_range\<close> for
  a key that is not present.
\<close>

type_synonym ('a, 's) Void_fn = "'a \<Rightarrow> 's \<Rightarrow> 's"
type_synonym ('a, 's) MethodTable_t = "string \<rightharpoonup> ('a, 's) Void_fn"

datatype exception = out_of_range

text \<open>The class with one table per instance, \<^verbatim>\<open>m_Table\<close>:
  \<^verbatim>\<open>m_Table.at(fn)(reinterpret_cast<void*>(&params))\<close>.\<close>

definition CallMethod ::
  "('a, 's) MethodTable_t \<Rightarrow> string \<Rightarrow> 'a \<Rightarrow> 's \<Rightarrow> exception + 's" where
  "CallMethod m_Table fn params s =
     (case m_Table fn of
        None \<Rightarrow> Inl out_of_range
      | Some f \<Rightarrow> Inr (f params s))"

text \<open>The older class with one static table for all instances, keyed by the address of
  the instance: \<^verbatim>\<open>s_Table.at(this).at(fn)(reinterpret_cast<void*>(&params))\<close>.\<close>

definition CallMethod_static ::
  "(nat \<rightharpoonup> ('a, 's) MethodTable_t) \<Rightarrow> nat \<Rightarrow> string \<Rightarrow> 'a \<Rightarrow> 's \<Rightarrow> exception + 's" where
  "CallMethod_static s_Table this fn params s =
     (case s_Table this of
        None \<Rightarrow> Inl out_of_range
      | Some table \<Rightarrow>
          (case table fn of
             None \<Rightarrow> Inl out_of_range
           | Some f \<Rightarrow> Inr (f params s)))"

text \<open>The method list of the Triangle oscillator (\<^verbatim>\<open>Triangle::CreateMethodList\<close>): one
  entry, which unpacks a \<^verbatim>\<open>std::tuple<Math_t>\<close> and calls \<^verbatim>\<open>SetFrequency\<close>.\<close>

definition Triangle_CreateMethodList ::
  "Math_t \<Rightarrow> (string \<times> (Math_t, Triangle) Void_fn) list" where
  "Triangle_CreateMethodList INC_RATE =
     [(''SetFrequency'', \<lambda>f. Triangle_SetFrequency INC_RATE f)]"


text \<open>The table of a Triangle oscillator after its constructor has registered the
  method list, at a tick duration of \<open>1/44100\<close>.\<close>

definition Triangle_table :: "(Math_t, Triangle) MethodTable_t" where
  "Triangle_table = map_of (Triangle_CreateMethodList (1/44100))"


section \<open>Node (Core/Node.hpp)\<close>

text \<open>
  \<^verbatim>\<open>Node.hpp\<close> declares the class and documents its constructors; the file that
  defines the constructors and \<^verbatim>\<open>SendSample\<close> is not among the sources. A
  generator is modelled by its state and the function that produces the next frame
  from it, a modifier by its state and the function that transforms one frame. The
  cells nodes write to are shared (\<^verbatim>\<open>pStereoData_t\<close> is a shared pointer): they live
  in a store, a map from addresses to frames.
\<close>

type_synonym 'g GenBase_t = "('g \<Rightarrow> StereoData \<times> 'g) \<times> 'g"
type_synonym 'm ModBase_t = "('m \<Rightarrow> StereoData \<Rightarrow> StereoData \<times> 'm) \<times> 'm"
type_synonym Interaction_t = "StereoData \<Rightarrow> StereoData \<Rightarrow> StereoData"
type_synonym store = "nat \<Rightarrow> StereoData"

record ('g, 'm) Node =
  m_Targets :: "nat list"
  m_Generator :: "'g GenBase_t option"
  m_Modifier :: "'m ModBase_t option"
  m_Interaction :: Interaction_t
  m_Input :: nat
  m_Output :: nat

text \<open>Modelled from the spec: the three constructors of \<^verbatim>\<open>Node\<close> with their default
  interactors, whose definitions are missing. "Generator-only: forward \<open>g\<close>;
  Modifier-only: forward \<open>m\<close>; both present: per-channel multiply." The addresses of
  the input and output cells are arguments of the model.\<close>

definition Node_gen :: "nat \<Rightarrow> nat \<Rightarrow> 'g GenBase_t \<Rightarrow> ('g, 'm) Node" where
  "Node_gen inp outp gen =
     \<lparr> m_Targets = [], m_Generator = Some gen, m_Modifier = None,
       m_Interaction = (\<lambda>g m. g), m_Input = inp, m_Output = outp \<rparr>"

definition Node_mod :: "nat \<Rightarrow> nat \<Rightarrow> 'm ModBase_t \<Rightarrow> ('g, 'm) Node" where
  "Node_mod inp outp modf =
     \<lparr> m_Targets = [], m_Generator = None, m_Modifier = Some modf,
       m_Interaction = (\<lambda>g m. m), m_Input = inp, m_Output = outp \<rparr>"

definition Node_gen_mod :: "nat \<Rightarrow> nat \<Rightarrow> 'g GenBase_t \<Rightarrow> 'm ModBase_t \<Rightarrow> ('g, 'm) Node" where
  "Node_gen_mod inp outp gen modf =
     \<lparr> m_Targets = [], m_Generator = Some gen, m_Modifier = Some modf,
       m_Interaction = (\<lambda>g m. (Left g * Left m, Right g * Right m)),
       m_Input = inp, m_Output = outp \<rparr>"

text \<open>Modelled from the spec: \<^verbatim>\<open>Node::AddTarget\<close> and \<^verbatim>\<open>Node::AddOutput\<close>, whose
  definitions are missing: they "establish non-owning downstream edges"; the edge
  to a target node is the address of that node's input cell.\<close>

definition AddOutput :: "nat \<Rightarrow> ('g, 'm) Node \<Rightarrow> ('g, 'm) Node" where
  "AddOutput output n = n\<lparr> m_Targets := m_Targets n @ [output] \<rparr>"

definition AddTarget :: "('h, 'k) Node \<Rightarrow> ('g, 'm) Node \<Rightarrow> ('g, 'm) Node" where
  "AddTarget target n = AddOutput (m_Input target) n"

text \<open>Modelled from the spec: \<^verbatim>\<open>Node::SendSample\<close>, whose definition is missing.
  "Let \<open>g\<close> = this Node's Generator output if present, else undefined/unused; let
  \<open>m\<close> = this Node's Modifier applied to the current contents of this Node's input
  cell if present, else undefined/unused. Combine via the interaction function.
  Write the result into this Node's own output cell and into every registered
  downstream target's input cell." An absent generator or modifier contributes the
  silent frame as its unused value. The result is the frame written, the node with
  the new states of its generator and modifier, and the new store.\<close>

definition write_cell :: "StereoData \<Rightarrow> nat \<Rightarrow> store \<Rightarrow> store" where
  "write_cell v a s = s(a := v)"

definition Node_SendSample ::
  "('g, 'm) Node \<Rightarrow> store \<Rightarrow> StereoData \<times> ('g, 'm) Node \<times> store" where
  "Node_SendSample n st =
     (let (g, gen') = (case m_Generator n of
                         None \<Rightarrow> (silence, None)
                       | Some (next_frame, gs) \<Rightarrow>
                           (let (x, gs') = next_frame gs in (x, Some (next_frame, gs'))));
          (m, modf') = (case m_Modifier n of
                         None \<Rightarrow> (silence, None)
                       | Some (process, ms) \<Rightarrow>
                           (let (y, ms') = process ms (st (m_Input n))
                            in (y, Some (process, ms'))));
          out = m_Interaction n g m
      in (out, n\<lparr> m_Generator := gen', m_Modifier := modf' \<rparr>,
          fold (write_cell out) (m_Output n # m_Targets n) st))"


subsection \<open>A concrete generator, modifier and store\<close>

text \<open>A Triangle oscillator as generator (its first frame is \<open>(1/2, 1/2)\<close>), a
  stateless modifier that inverts the signal, and a store whose cell 0 holds a frame
  with a zero and a negative amplitude.\<close>

definition example_generator :: "Triangle GenBase_t" where
  "example_generator = (Triangle_SendSample, Triangle_new (1/44100) (11025/2))"

definition example_modifier :: "unit ModBase_t" where
  "example_modifier = (\<lambda>ms x. ((- Left x, - Right x), ms), ())"

definition example_store :: store where
  "example_store = (\<lambda>a. silence)(0 := (0, - 3))"


section \<open>Vocoder (Modifiers/Vocoder.cpp)\<close>

text \<open>
  The carrier frequencies come from the file-level array \<^verbatim>\<open>freq\<close> of four floats.
  Reading the array at an index beyond its end has no result; the model returns the
  fault \<open>IndexOutOfRange\<close> there. Of each carrier oscillator (the generator of a node
  of layer 2 of the graph) the model keeps its frequency: the argument of its
  constructor or of its last \<^verbatim>\<open>SetFrequency\<close>. The carriers are listed in the order
  in which the constructor adds their nodes to layer 2, which is taken to be the
  order in which \<^verbatim>\<open>SetOffset\<close> visits them.
\<close>

definition freq :: "real list" where
  "freq = [220, 440, 660, 880]"

definition freq_at :: "nat \<Rightarrow> fault + real" where
  "freq_at i = (if i < length freq then Inr (freq ! i) else Inl IndexOutOfRange)"

record Vocoder =
  m_BandCount :: nat
  m_Mu :: real
  carriers :: "real list"

text \<open>\<^verbatim>\<open>OscSetup\<close>: for \<open>i = 0, ..., m_BandCount - 1\<close> a carrier of frequency
  \<^verbatim>\<open>freq[i] * m_Mu\<close>.\<close>

fun OscSetup_loop :: "real \<Rightarrow> nat list \<Rightarrow> fault + real list" where
  "OscSetup_loop mu [] = Inr []"
| "OscSetup_loop mu (i # is) =
     (case freq_at i of
        Inl f \<Rightarrow> Inl f
      | Inr x \<Rightarrow>
          (case OscSetup_loop mu is of
             Inl f \<Rightarrow> Inl f
           | Inr l_Osc \<Rightarrow> Inr (x * mu # l_Osc)))"

definition OscSetup :: "nat \<Rightarrow> real \<Rightarrow> fault + real list" where
  "OscSetup band_count mu = OscSetup_loop mu [0..<band_count]"

text \<open>The constructor initialises \<^verbatim>\<open>m_Mu\<close> to 1 and puts the carriers of
  \<^verbatim>\<open>OscSetup\<close>, in order, into the nodes of layer 2.\<close>

definition Vocoder_new :: "nat \<Rightarrow> fault + Vocoder" where
  "Vocoder_new N =
     (case OscSetup N 1 of
        Inl f \<Rightarrow> Inl f
      | Inr l_Osc \<Rightarrow> Inr \<lparr> m_BandCount = N, m_Mu = 1, carriers = l_Osc \<rparr>)"

text \<open>\<^verbatim>\<open>SetOffset\<close>: the loop over the nodes of layer 2 increments \<^verbatim>\<open>counter\<close> before
  it reads \<^verbatim>\<open>freq[counter]\<close>.\<close>

fun SetOffset_loop :: "real \<Rightarrow> nat \<Rightarrow> real list \<Rightarrow> fault + real list" where
  "SetOffset_loop mu counter [] = Inr []"
| "SetOffset_loop mu counter (node # nodes) =
     (let counter' = counter + 1 in
      case freq_at counter' of
        Inl f \<Rightarrow> Inl f
      | Inr x \<Rightarrow>
          (case SetOffset_loop mu counter' nodes of
             Inl f \<Rightarrow> Inl f
           | Inr nodes' \<Rightarrow> Inr (x * mu # nodes')))"

definition SetOffset :: "real \<Rightarrow> Vocoder \<Rightarrow> fault + Vocoder" where
  "SetOffset p v =
     (let mu = 2 powr (p / 1200) in
      case SetOffset_loop mu 0 (carriers v) of
        Inl f \<Rightarrow> Inl f
      | Inr nodes' \<Rightarrow> Inr (v\<lparr> m_Mu := mu, carriers := nodes' \<rparr>))"


section \<open>WAV generator (Generators/WAV.cpp)\<close>

text \<open>
  The generator holds a shared pointer to a Resampler, null until a container has
  been parsed. \<^verbatim>\<open>ParseWAV\<close> depends on parts that are not among the sources: the
  RIFF reader (an external library), the struct \<^verbatim>\<open>Tools::WAVHeader\<close> with its size
  and layout, and the macros \<^verbatim>\<open>OCAE_SQRT_HALF\<close> and \<^verbatim>\<open>OCAE_INC_RATE\<close>. They are
  parameters of the model, collected in one record: \<open>env_GetChunk vec tag\<close> is
  \<^verbatim>\<open>RIFF::Reader(vec, "WAVE").GetChunk(tag)\<close>, \<open>env_as_WAVHeader\<close> is the
  \<^verbatim>\<open>reinterpret_cast\<close> of the bytes of the format chunk. Of the header the model
  keeps the four fields \<^verbatim>\<open>ParseWAV\<close> reads.
\<close>

type_synonym byte = "8 word"

record WAVHeader =
  ChannelCount :: "16 word"
  SamplingRate :: "32 word"
  BytesPerSample :: "16 word"
  BitsPerSample :: "16 word"

record environment =
  env_GetChunk :: "byte list \<Rightarrow> string \<Rightarrow> byte list"
  env_sizeof_WAVHeader :: nat
  env_as_WAVHeader :: "byte list \<Rightarrow> WAVHeader"
  env_SQRT_HALF :: real
  env_INC_RATE :: real

record WAV =
  m_Resampler :: "Resampler option"

definition WAV_new :: WAV where
  "WAV_new = \<lparr> m_Resampler = None \<rparr>"

definition WAV_Process :: "WAV \<Rightarrow> fault + (StereoData \<times> WAV)" where
  "WAV_Process w =
     (case m_Resampler w of
        Some r \<Rightarrow>
          (case Process r of
             Inl f \<Rightarrow> Inl f
           | Inr (s, r') \<Rightarrow> Inr (s, w\<lparr> m_Resampler := Some r' \<rparr>))
      | None \<Rightarrow> Inr (silence, w))"

text \<open>\<open>n\<close> successive calls of \<^verbatim>\<open>WAV::Process\<close>.\<close>

fun WAV_Process_n :: "nat \<Rightarrow> WAV \<Rightarrow> fault + (StereoData list \<times> WAV)" where
  "WAV_Process_n 0 w = Inr ([], w)"
| "WAV_Process_n (Suc n) w =
     (case WAV_Process w of
        Inl f \<Rightarrow> Inl f
      | Inr (s, w') \<Rightarrow>
          (case WAV_Process_n n w' of
             Inl f \<Rightarrow> Inl f
           | Inr (outs, w'') \<Rightarrow> Inr (s # outs, w'')))"

text \<open>
  Reading the sample data. \<^verbatim>\<open>*data\<close> is a \<^verbatim>\<open>char\<close>, read as a signed byte;
  \<^verbatim>\<open>*rdata\<close> is an \<^verbatim>\<open>int16_t\<close> read from two bytes, low byte first. A read beyond
  the end of the data chunk has no result.
\<close>

definition char_at :: "byte list \<Rightarrow> nat \<Rightarrow> fault + int" where
  "char_at d i = (if i < length d then Inr (sint (d ! i)) else Inl IndexOutOfRange)"

definition int16_at :: "byte list \<Rightarrow> nat \<Rightarrow> fault + int" where
  "int16_at d i =
     (if i + 1 < length d
      then Inr (sint (word_of_nat (unat (d ! i) + 256 * unat (d ! (i + 1))) :: 16 word))
      else Inl IndexOutOfRange)"

definition read_sample :: "environment \<Rightarrow> WAVHeader \<Rightarrow> byte list \<Rightarrow> nat \<Rightarrow> fault + StereoData" where
  "read_sample env header d pos =
     (if BitsPerSample header = 8 then
        (if ChannelCount header = 1 then
           (case char_at d pos of
              Inl f \<Rightarrow> Inl f
            | Inr c \<Rightarrow>
                let v = (of_int (c * 2 ^ 8) * env_SQRT_HALF env) / 32768 in Inr (v, v))
         else
           (case char_at d pos of
              Inl f \<Rightarrow> Inl f
            | Inr c0 \<Rightarrow>
                (case char_at d (pos + 1) of
                   Inl f \<Rightarrow> Inl f
                 | Inr c1 \<Rightarrow> Inr (of_int (c0 * 2 ^ 8) / 32768, of_int (c1 * 2 ^ 8) / 32768))))
      else
        (if ChannelCount header = 1 then
           (case int16_at d pos of
              Inl f \<Rightarrow> Inl f
            | Inr x \<Rightarrow>
                let v = (of_int x * env_SQRT_HALF env) / 32768 in Inr (v, v))
         else
           (case int16_at d pos of
              Inl f \<Rightarrow> Inl f
            | Inr x0 \<Rightarrow>
                (case int16_at d (pos + 2) of
                   Inl f \<Rightarrow> Inl f
                 | Inr x1 \<Rightarrow> Inr (of_int x0 / 32768, of_int x1 / 32768)))))"

text \<open>
  The loop over the data chunk advances by \<^verbatim>\<open>BytesPerSample\<close>. \<^verbatim>\<open>ParseWAV\<close> divides
  by that field before the loop, so the loop is only reached with a positive step;
  the condition of the model's loop says so, which makes it terminate on every
  argument.
\<close>

function ParseWAV_loop ::
  "environment \<Rightarrow> WAVHeader \<Rightarrow> byte list \<Rightarrow> nat \<Rightarrow> fault + StereoData list" where
  "ParseWAV_loop env header d pos =
     (if pos < length d \<and> 0 < unat (BytesPerSample header)
      then (case read_sample env header d pos of
              Inl f \<Rightarrow> Inl f
            | Inr sample \<Rightarrow>
                (case ParseWAV_loop env header d (pos + unat (BytesPerSample header)) of
                   Inl f \<Rightarrow> Inl f
                 | Inr rest \<Rightarrow> Inr (sample # rest)))
      else Inr [])"
  by pat_completeness auto
termination
  by (relation "measure (\<lambda>(env, header, d, pos). length d - pos)") auto

text \<open>The line \<^verbatim>\<open>ParseWAV\<close> writes to \<^verbatim>\<open>std::cerr\<close> for a format chunk of the wrong
  size.\<close>

definition malformed_header_message :: string where
  "malformed_header_message = ''Error reading WAVE data, malformed header chunk'' @ [CHR 0x0A]"

text \<open>
  \<^verbatim>\<open>ParseWAV\<close> returns the lines written to \<^verbatim>\<open>std::cerr\<close> and the generator
  afterwards. The loop bound \<^verbatim>\<open>AudioData.size() - 1\<close> is computed in \<^verbatim>\<open>size_t\<close>.
\<close>

definition ParseWAV :: "environment \<Rightarrow> byte list \<Rightarrow> WAV \<Rightarrow> fault + (string list \<times> WAV)" where
  "ParseWAV env array w =
     (let vec = array;
          fmt = env_GetChunk env vec ''fmt ''
      in if length fmt \<noteq> env_sizeof_WAVHeader env
         then Inr ([malformed_header_message], w)
         else
           let header = env_as_WAVHeader env fmt;
               data_vec = env_GetChunk env vec ''data''
           in if BytesPerSample header = 0 then Inl DivisionByZero
              else (case ParseWAV_loop env header data_vec 0 of
                      Inl f \<Rightarrow> Inl f
                    | Inr AudioData \<Rightarrow>
                        Inr ([], w\<lparr> m_Resampler :=
                               Some (Resampler_new (env_INC_RATE env) AudioData
                                       (SamplingRate header) 0
                                       (of_nat (length AudioData) - 1)) \<rparr>)))"

definition LoadWAV :: "environment \<Rightarrow> byte list \<Rightarrow> WAV \<Rightarrow> fault + (string list \<times> WAV)" where
  "LoadWAV env wav_data w = ParseWAV env wav_data w"

subsection \<open>A concrete reader and two containers\<close>

text \<open>
  For the concrete runs: a reader for containers in the canonical layout (the
  12-byte RIFF header, then the format chunk, then the data chunk, each with its
  tag and its 32-bit little-endian size), the usual 16-byte PCM layout of the
  format chunk, and a tick rate of 44100.
\<close>

fun le_nat :: "byte list \<Rightarrow> nat" where
  "le_nat [] = 0"
| "le_nat (b # bs) = unat b + 256 * le_nat bs"

definition canonical_GetChunk :: "byte list \<Rightarrow> string \<Rightarrow> byte list" where
  "canonical_GetChunk vec tag =
     (let n = le_nat (take 4 (drop 16 vec)) in
      if tag = ''fmt '' then take n (drop 20 vec)
      else if tag = ''data'' then take (le_nat (take 4 (drop (24 + n) vec))) (drop (28 + n) vec)
      else [])"

definition canonical_as_WAVHeader :: "byte list \<Rightarrow> WAVHeader" where
  "canonical_as_WAVHeader fmt =
     \<lparr> ChannelCount = of_nat (le_nat (take 2 (drop 2 fmt))),
       SamplingRate = of_nat (le_nat (take 4 (drop 4 fmt))),
       BytesPerSample = of_nat (le_nat (take 2 (drop 12 fmt))),
       BitsPerSample = of_nat (le_nat (take 2 (drop 14 fmt))) \<rparr>"

definition canonical_environment :: environment where
  "canonical_environment =
     \<lparr> env_GetChunk = canonical_GetChunk, env_sizeof_WAVHeader = 16,
       env_as_WAVHeader = canonical_as_WAVHeader,
       env_SQRT_HALF = sqrt (1/2), env_INC_RATE = 1/44100 \<rparr>"

text \<open>A well-formed container: stereo, 8 bits, 44100 Hz, two frames with the bytes
  64, 64 and 32, 224. And the same container with a format chunk of 14 bytes.\<close>

definition good_wav :: "byte list" where
  "good_wav =
     [0x52, 0x49, 0x46, 0x46,  40, 0, 0, 0,  0x57, 0x41, 0x56, 0x45,
      0x66, 0x6D, 0x74, 0x20,  16, 0, 0, 0,
      1, 0,  2, 0,  0x44, 0xAC, 0, 0,  0x88, 0x58, 0x01, 0,  2, 0,  8, 0,
      0x64, 0x61, 0x74, 0x61,  4, 0, 0, 0,
      64, 64, 32, 224]"

definition malformed_wav :: "byte list" where
  "malformed_wav =
     [0x52, 0x49, 0x46, 0x46,  38, 0, 0, 0,  0x57, 0x41, 0x56, 0x45,
      0x66, 0x6D, 0x74, 0x20,  14, 0, 0, 0,
      1, 0,  2, 0,  0x44, 0xAC, 0, 0,  0x88, 0x58, 0x01, 0,  2, 0,
      0x64, 0x61, 0x74, 0x61,  4, 0, 0, 0,
      64, 64, 32, 224]"

text \<open>The generator after \<^verbatim>\<open>ParseWAV\<close> of the well-formed container.\<close>

definition loaded_wav :: WAV where
  "loaded_wav =
     \<lparr> m_Resampler = Some
         \<lparr> m_Data = [(1/2, 1/2), (1/4, - 1/4)], m_Index = 0, m_IndexIncrement = 1,
           m_PlaybackSpeed = 1, m_LoopStart = 0, m_LoopEnd = 1 \<rparr> \<rparr>"


section \<open>Properties of Echo\<close>

lemma FilterSample_Cons:
  "m_Echo e = wet # rest \<Longrightarrow>
   FilterSample e dry =
     Some ((Left wet * m_Ratio e + Left dry, Right wet * m_Ratio e + Right dry),
           e\<lparr> m_Echo := rest @ [(Left wet * m_Ratio e + Left dry, Right wet * m_Ratio e + Right dry)] \<rparr>)"
  by (simp add: FilterSample_def Let_def)

text \<open>
  The invariant of a run: from a non-empty queue \<open>q\<close>, every call succeeds, the
  \<open>n\<close>-th frame returned is built from the \<open>n\<close>-th element of \<open>q\<close> followed by
  the frames returned so far, and the queue afterwards is what is left of that
  sequence.
\<close>

lemma FilterSamples_run:
  "m_Echo e \<noteq> [] \<Longrightarrow>
   \<exists>outs e'. FilterSamples e ins = Some (outs, e')
     \<and> length outs = length ins
     \<and> m_Ratio e' = m_Ratio e
     \<and> m_Echo e' = drop (length ins) (m_Echo e @ outs)
     \<and> (\<forall>n < length ins. outs ! n =
           (Left ((m_Echo e @ outs) ! n) * m_Ratio e + Left (ins ! n),
            Right ((m_Echo e @ outs) ! n) * m_Ratio e + Right (ins ! n)))"
proof (induction ins arbitrary: e)
  case Nil
  then show ?case by simp
next
  case (Cons dry ins)
  then obtain wet rest where q: "m_Echo e = wet # rest"
    by (cases "m_Echo e") auto
  define out where "out = (Left wet * m_Ratio e + Left dry, Right wet * m_Ratio e + Right dry)"
  define e1 where "e1 = e\<lparr> m_Echo := rest @ [out] \<rparr>"
  have step: "FilterSample e dry = Some (out, e1)"
    using FilterSample_Cons [OF q] by (simp add: out_def e1_def)
  have ne: "m_Echo e1 \<noteq> []" by (simp add: e1_def)
  from Cons.IH [OF ne] obtain outs e' where
    run: "FilterSamples e1 ins = Some (outs, e')"
    and len: "length outs = length ins"
    and rat: "m_Ratio e' = m_Ratio e1"
    and que: "m_Echo e' = drop (length ins) (m_Echo e1 @ outs)"
    and rec: "\<forall>n < length ins. outs ! n =
           (Left ((m_Echo e1 @ outs) ! n) * m_Ratio e1 + Left (ins ! n),
            Right ((m_Echo e1 @ outs) ! n) * m_Ratio e1 + Right (ins ! n))"
    by blast
  have q1: "m_Echo e1 @ outs = rest @ out # outs" by (simp add: e1_def)
  have r1: "m_Ratio e1 = m_Ratio e" by (simp add: e1_def)
  have a: "FilterSamples e (dry # ins) = Some (out # outs, e')"
    by (simp add: step run)
  have b: "m_Echo e' = drop (length (dry # ins)) (m_Echo e @ (out # outs))"
    using que by (simp add: q q1)
  have c: "(out # outs) ! n =
           (Left ((m_Echo e @ (out # outs)) ! n) * m_Ratio e + Left ((dry # ins) ! n),
            Right ((m_Echo e @ (out # outs)) ! n) * m_Ratio e + Right ((dry # ins) ! n))"
    if "n < length (dry # ins)" for n
  proof (cases n)
    case 0
    then show ?thesis by (simp add: q out_def)
  next
    case (Suc k)
    with that have "k < length ins" by simp
    with rec have "outs ! k =
           (Left ((rest @ out # outs) ! k) * m_Ratio e + Left (ins ! k),
            Right ((rest @ out # outs) ! k) * m_Ratio e + Right (ins ! k))"
      by (simp add: q1 r1)
    then show ?thesis by (simp add: Suc q)
  qed
  show ?case
    using a b c len rat r1 by (intro exI [of _ "out # outs"] exI [of _ e']) simp
qed

lemma replicate_append_nth:
  "(replicate D x @ ys) ! n = (if n < D then x else ys ! (n - D))"
  by (simp add: nth_append)

text \<open>A run on concrete frames, delay 2 and ratio 1/2, with a zero and a negative
  amplitude among the inputs.\<close>

lemma Echo_run_example:
  "FilterSamples (Echo_new 2 (1/2)) [(1, 1), (2, -2), (4, 0)] =
     Some ([(1, 1), (2, -2), (9/2, 1/2)], \<lparr> m_Echo = [(2, -2), (9/2, 1/2)], m_Ratio = 1/2 \<rparr>)"
  by (simp add: Echo_new_def FilterSample_def Left_def Right_def silence_def numeral_2_eq_2 Let_def)

text \<open>
  Claim C3. An Echo built with delay \<open>D \<ge> 1\<close> and decay ratio \<open>r\<close> answers every
  sequence of input frames: no call fails, the \<open>n\<close>-th call returns the \<open>n\<close>-th
  input frame unchanged while \<open>n < D\<close>, and from \<open>n = D\<close> on it returns, per
  channel, \<open>input[n] + r * output[n - D]\<close>, where \<open>output\<close> is the sequence of
  frames \<^verbatim>\<open>FilterSample\<close> itself returned. Each single call on a non-empty queue
  removes the oldest frame \<open>wet\<close>, returns \<open>out = wet * r + dry\<close> and appends \<open>out\<close>
  at the tail.
\<close>

theorem Echo_recurrence:
  assumes "1 \<le> D"
  shows "(\<exists>outs e'. FilterSamples (Echo_new D r) ins = Some (outs, e')
     \<and> length outs = length ins
     \<and> (\<forall>n < length ins. outs ! n =
           (if n < D then ins ! n
            else (Left (ins ! n) + r * Left (outs ! (n - D)),
                  Right (ins ! n) + r * Right (outs ! (n - D))))))
   \<and> (\<forall>e wet rest dry. m_Echo e = wet # rest \<longrightarrow>
         FilterSample e dry =
           Some ((Left wet * m_Ratio e + Left dry, Right wet * m_Ratio e + Right dry),
                 e\<lparr> m_Echo := rest @ [(Left wet * m_Ratio e + Left dry,
                                        Right wet * m_Ratio e + Right dry)] \<rparr>))"
proof (rule conjI)
  have ne: "m_Echo (Echo_new D r) \<noteq> []"
    using assms by (simp add: Echo_new_def)
  from FilterSamples_run [OF ne, of ins] obtain outs e' where
    run: "FilterSamples (Echo_new D r) ins = Some (outs, e')"
    and len: "length outs = length ins"
    and rec: "\<forall>n < length ins. outs ! n =
           (Left ((m_Echo (Echo_new D r) @ outs) ! n) * m_Ratio (Echo_new D r) + Left (ins ! n),
            Right ((m_Echo (Echo_new D r) @ outs) ! n) * m_Ratio (Echo_new D r) + Right (ins ! n))"
    by blast
  have "outs ! n =
           (if n < D then ins ! n
            else (Left (ins ! n) + r * Left (outs ! (n - D)),
                  Right (ins ! n) + r * Right (outs ! (n - D))))"
    if "n < length ins" for n
  proof -
    from rec that have "outs ! n =
           (Left ((replicate D silence @ outs) ! n) * r + Left (ins ! n),
            Right ((replicate D silence @ outs) ! n) * r + Right (ins ! n))"
      by (simp add: Echo_new_def)
    then show ?thesis
      by (simp add: replicate_append_nth silence_def Left_def Right_def mult.commute add.commute)
  qed
  with run len show "\<exists>outs e'. FilterSamples (Echo_new D r) ins = Some (outs, e')
     \<and> length outs = length ins
     \<and> (\<forall>n < length ins. outs ! n =
           (if n < D then ins ! n
            else (Left (ins ! n) + r * Left (outs ! (n - D)),
                  Right (ins ! n) + r * Right (outs ! (n - D)))))"
    by blast
next
  show "\<forall>e wet rest dry. m_Echo e = wet # rest \<longrightarrow>
         FilterSample e dry =
           Some ((Left wet * m_Ratio e + Left dry, Right wet * m_Ratio e + Right dry),
                 e\<lparr> m_Echo := rest @ [(Left wet * m_Ratio e + Left dry,
                                        Right wet * m_Ratio e + Right dry)] \<rparr>)"
    using FilterSample_Cons by blast
qed

theorem Echo_recurrence_witness:
  "(1::nat) \<le> 2
   \<and> FilterSamples (Echo_new 2 (1/2)) [(1, 1), (2, -2), (4, 0)] =
       Some ([(1, 1), (2, -2), (9/2, 1/2)], \<lparr> m_Echo = [(2, -2), (9/2, 1/2)], m_Ratio = 1/2 \<rparr>)
   \<and> (\<exists>outs e'. FilterSamples (Echo_new 2 (1/2)) [(1, 1), (2, -2), (4, 0)] = Some (outs, e')
     \<and> length outs = length [(1, 1), (2, -2), (4, 0) :: StereoData]
     \<and> (\<forall>n < length [(1, 1), (2, -2), (4, 0) :: StereoData]. outs ! n =
           (if n < 2 then [(1, 1), (2, -2), (4, 0)] ! n
            else (Left ([(1, 1), (2, -2), (4, 0)] ! n) + (1/2) * Left (outs ! (n - 2)),
                  Right ([(1, 1), (2, -2), (4, 0)] ! n) + (1/2) * Right (outs ! (n - 2))))))"
proof -
  have h: "(1::nat) \<le> 2" by simp
  note t = Echo_recurrence [OF h, where r = "1/2" and ins = "[(1, 1), (2, -2), (4, 0)]"]
  from h Echo_run_example t show ?thesis by blast
qed

text \<open>
  Claim C10. For a delay \<open>D \<ge> 1\<close>: a call of \<^verbatim>\<open>FilterSample\<close> on a queue of
  length \<open>D\<close> succeeds, drops exactly the head of the queue and appends exactly the
  returned frame at the tail, so the queue has length \<open>D\<close> again; the constructor
  builds a queue of length \<open>D\<close>, and the queue has length \<open>D\<close> after every run of
  calls. For \<open>D = 0\<close> the first call finds the queue empty and the front access
  yields no element.
\<close>

theorem Echo_queue_length:
  "(1 \<le> D \<longrightarrow>
      (\<forall>e dry. length (m_Echo e) = D \<longrightarrow>
         (\<exists>out e'. FilterSample e dry = Some (out, e')
            \<and> m_Echo e' = tl (m_Echo e) @ [out] \<and> length (m_Echo e') = D))
    \<and> length (m_Echo (Echo_new D r)) = D
    \<and> (\<forall>ins. \<exists>outs e'. FilterSamples (Echo_new D r) ins = Some (outs, e')
            \<and> length outs = length ins \<and> length (m_Echo e') = D))
   \<and> FilterSample (Echo_new 0 r) dry0 = None"
proof (intro conjI impI allI)
  fix e :: Echo and dry :: StereoData
  assume D: "1 \<le> D" and len: "length (m_Echo e) = D"
  then obtain wet rest where q: "m_Echo e = wet # rest"
    by (cases "m_Echo e") auto
  from FilterSample_Cons [OF q, where dry = dry] len q
  show "\<exists>out e'. FilterSample e dry = Some (out, e')
            \<and> m_Echo e' = tl (m_Echo e) @ [out] \<and> length (m_Echo e') = D"
    by auto
next
  show "length (m_Echo (Echo_new D r)) = D"
    by (simp add: Echo_new_def)
next
  fix ins
  assume D: "1 \<le> D"
  then have ne: "m_Echo (Echo_new D r) \<noteq> []"
    by (simp add: Echo_new_def)
  from FilterSamples_run [OF ne, of ins] obtain outs e' where
    run: "FilterSamples (Echo_new D r) ins = Some (outs, e')"
    and len: "length outs = length ins"
    and que: "m_Echo e' = drop (length ins) (m_Echo (Echo_new D r) @ outs)"
    by blast
  from que len have "length (m_Echo e') = D"
    by (simp add: Echo_new_def)
  with run len show "\<exists>outs e'. FilterSamples (Echo_new D r) ins = Some (outs, e')
            \<and> length outs = length ins \<and> length (m_Echo e') = D"
    by blast
next
  show "FilterSample (Echo_new 0 r) dry0 = None"
    by (simp add: Echo_new_def FilterSample_def)
qed

theorem Echo_queue_length_witness:
  "(1::nat) \<le> 2
   \<and> length (m_Echo \<lparr> m_Echo = [(3, 4), (5, 6)], m_Ratio = 1/2 \<rparr>) = 2
   \<and> (\<exists>out e'. FilterSample \<lparr> m_Echo = [(3, 4), (5, 6)], m_Ratio = 1/2 \<rparr> (1, 1) = Some (out, e')
            \<and> m_Echo e' = [(5, 6)] @ [out] \<and> length (m_Echo e') = 2)
   \<and> (\<exists>outs e'. FilterSamples (Echo_new 2 (1/2)) [(1, 1), (2, -2), (4, 0)] = Some (outs, e')
            \<and> length (m_Echo e') = 2)
   \<and> FilterSample (Echo_new 0 (1/2)) (1, 1) = None"
proof -
  have h: "(1::nat) \<le> 2" by simp
  have l: "length (m_Echo \<lparr> m_Echo = [(3, 4), (5, 6)], m_Ratio = 1/2 \<rparr>) = 2" by simp
  note t = Echo_queue_length [where D = 2 and r = "1/2" and ?dry0.0 = "(1, 1)"]
  from t h have a: "\<forall>e dry. length (m_Echo e) = 2 \<longrightarrow>
         (\<exists>out e'. FilterSample e dry = Some (out, e')
            \<and> m_Echo e' = tl (m_Echo e) @ [out] \<and> length (m_Echo e') = 2)"
    by blast
  from a l have b: "\<exists>out e'. FilterSample \<lparr> m_Echo = [(3, 4), (5, 6)], m_Ratio = 1/2 \<rparr> (1, 1) = Some (out, e')
            \<and> m_Echo e' = tl (m_Echo \<lparr> m_Echo = [(3, 4), (5, 6)], m_Ratio = 1/2 \<rparr>) @ [out]
            \<and> length (m_Echo e') = 2"
    by blast
  from t h have c: "\<exists>outs e'. FilterSamples (Echo_new 2 (1/2)) [(1, 1), (2, -2), (4, 0)] = Some (outs, e')
            \<and> length (m_Echo e') = 2"
    by blast
  from t have d: "FilterSample (Echo_new 0 (1/2)) (1, 1) = None"
    by blast
  from b have b': "\<exists>out e'. FilterSample \<lparr> m_Echo = [(3, 4), (5, 6)], m_Ratio = 1/2 \<rparr> (1, 1) = Some (out, e')
            \<and> m_Echo e' = [(5, 6)] @ [out] \<and> length (m_Echo e') = 2"
    by simp
  from h l b' c d show ?thesis by blast
qed


section \<open>Properties of the Resampler\<close>


lemma unat_of_nat64: "n < 2 ^ 64 \<Longrightarrow> unat (of_nat n :: 64 word) = n"
  by (simp add: unat_of_nat)

lemma unat_of_nat64_Suc: "Suc n < 2 ^ 64 \<Longrightarrow> unat (of_nat n + 1 :: 64 word) = Suc n"
proof -
  assume a: "Suc n < 2 ^ 64"
  have "(of_nat n + 1 :: 64 word) = of_nat (Suc n)" by simp
  with a show ?thesis by (simp only: unat_of_nat64)
qed

lemma to_uint64_floor:
  assumes "0 \<le> x" and "x < 2 ^ 64"
  shows "to_uint64 x = Some (of_nat (nat \<lfloor>x\<rfloor>))" and "unat (of_nat (nat \<lfloor>x\<rfloor>) :: 64 word) = nat \<lfloor>x\<rfloor>"
proof -
  show "to_uint64 x = Some (of_nat (nat \<lfloor>x\<rfloor>))"
    using assms by (simp add: to_uint64_def)
  have "\<lfloor>x\<rfloor> < 2 ^ 64" using assms(2) by (simp add: floor_less_iff)
  moreover have "0 \<le> \<lfloor>x\<rfloor>" using assms(1) by simp
  ultimately have "nat \<lfloor>x\<rfloor> < 2 ^ 64" by (simp add: nat_less_iff)
  then show "unat (of_nat (nat \<lfloor>x\<rfloor>) :: 64 word) = nat \<lfloor>x\<rfloor>"
    by (rule unat_of_nat64)
qed

lemma to_uint64_of_nat: "n < 2 ^ 64 \<Longrightarrow> to_uint64 (real n) = Some (of_nat n)"
proof -
  assume a: "n < 2 ^ 64"
  then have "real n < 2 ^ 64"
    by (metis of_nat_less_iff of_nat_numeral of_nat_power)
  then show ?thesis by (simp add: to_uint64_def)
qed

lemma Process_past_end:
  assumes "m_LoopEnd r = 0"
    and "int (length (m_Data r)) \<le> \<lfloor>m_Index r\<rfloor>"
    and "m_Index r < 2 ^ 64"
  shows "Process r = Inr (silence, r)"
proof -
  have f: "0 \<le> \<lfloor>m_Index r\<rfloor>" using assms(2) by linarith
  then have x: "0 \<le> m_Index r" by simp
  from assms(2) f have "length (m_Data r) \<le> nat \<lfloor>m_Index r\<rfloor>" by linarith
  with to_uint64_floor [OF x assms(3)] assms(1) show ?thesis
    by (simp add: Process_def)
qed

lemma Resampler_run_past_end:
  assumes "m_LoopEnd r = 0"
    and "int (length (m_Data r)) \<le> \<lfloor>m_Index r\<rfloor>"
    and "m_Index r < 2 ^ 64"
  shows "\<exists>outs p. Resampler_run r cs = Inr (outs, r\<lparr> m_PlaybackSpeed := p \<rparr>)
           \<and> length outs = length (filter (\<lambda>c. c = Call_Process) cs)
           \<and> (\<forall>s \<in> set outs. s = silence)"
  using assms
proof (induction cs arbitrary: r)
  case Nil
  have "r = r\<lparr> m_PlaybackSpeed := m_PlaybackSpeed r \<rparr>" by simp
  then have "Resampler_run r [] = Inr ([], r\<lparr> m_PlaybackSpeed := m_PlaybackSpeed r \<rparr>)
      \<and> length ([] :: StereoData list) = length (filter (\<lambda>c. c = Call_Process) [])
      \<and> (\<forall>s \<in> set ([] :: StereoData list). s = silence)"
    by simp
  then show ?case by blast
next
  case (Cons c cs)
  show ?case
  proof (cases c)
    case Call_Process
    from Cons.IH [OF Cons.prems] obtain outs p where
      run: "Resampler_run r cs = Inr (outs, r\<lparr> m_PlaybackSpeed := p \<rparr>)"
      and len: "length outs = length (filter (\<lambda>c. c = Call_Process) cs)"
      and sil: "\<forall>s \<in> set outs. s = silence"
      by blast
    have "Resampler_run r (c # cs) = Inr (silence # outs, r\<lparr> m_PlaybackSpeed := p \<rparr>)"
      by (simp add: Call_Process Process_past_end [OF Cons.prems] run)
    with len sil show ?thesis
      by (auto simp: Call_Process)
  next
    case (Call_SetPlaybackSpeed q)
    let ?r = "SetPlaybackSpeed q r"
    have a: "m_LoopEnd ?r = 0" using Cons.prems(1) by (simp add: SetPlaybackSpeed_def)
    have b: "int (length (m_Data ?r)) \<le> \<lfloor>m_Index ?r\<rfloor>"
      using Cons.prems(2) by (simp add: SetPlaybackSpeed_def)
    have c: "m_Index ?r < 2 ^ 64" using Cons.prems(3) by (simp add: SetPlaybackSpeed_def)
    from Cons.IH [OF a b c] obtain outs p where
      run: "Resampler_run ?r cs = Inr (outs, ?r\<lparr> m_PlaybackSpeed := p \<rparr>)"
      and len: "length outs = length (filter (\<lambda>c. c = Call_Process) cs)"
      and sil: "\<forall>s \<in> set outs. s = silence"
      by blast
    have "?r\<lparr> m_PlaybackSpeed := p \<rparr> = r\<lparr> m_PlaybackSpeed := p \<rparr>"
      by (simp add: SetPlaybackSpeed_def)
    with run have "Resampler_run r (c # cs) = Inr (outs, r\<lparr> m_PlaybackSpeed := p \<rparr>)"
      by (simp add: Call_SetPlaybackSpeed)
    with len sil show ?thesis
      by (auto simp: Call_SetPlaybackSpeed)
  qed
qed

lemma Process_unit_step:
  assumes "m_LoopEnd r = 0"
    and "m_Index r = real k"
    and "k < length (m_Data r)"
    and "length (m_Data r) < 2 ^ 64"
    and "m_IndexIncrement r * m_PlaybackSpeed r = 1"
  shows "Process r = Inr (m_Data r ! k, r\<lparr> m_Index := real k + 1 \<rparr>)"
proof -
  from assms(3,4) have k: "k < 2 ^ 64" and sk: "Suc k < 2 ^ 64" by simp_all
  have c: "to_uint64 (m_Index r) = Some (of_nat k)"
    using to_uint64_of_nat [OF k] assms(2) by simp
  have u: "unat (of_nat k :: 64 word) = k" by (rule unat_of_nat64 [OF k])
  have u1: "unat (of_nat k + 1 :: 64 word) = Suc k" by (rule unat_of_nat64_Suc [OF sk])
  have x: "at_index (m_Data r) (of_nat k) = Inr (m_Data r ! k)"
    using assms(3) by (simp add: at_index_def u)
  show ?thesis
  proof (cases "length (m_Data r) \<le> Suc k")
    case True
    then show ?thesis
      unfolding Process_def c
      using assms(1,2,3,5) by (simp add: u u1 x Left_def Right_def)
  next
    case False
    then have "at_index (m_Data r) (of_nat k + 1) = Inr (m_Data r ! Suc k)"
      by (simp add: at_index_def u1)
    with False show ?thesis
      unfolding Process_def c
      using assms(1,2,3,5) by (simp add: u u1 x Left_def Right_def)
  qed
qed

lemma Resampler_run_unit_steps:
  assumes "m_LoopEnd r = 0"
    and "m_Index r = real k"
    and "k + n \<le> length (m_Data r)"
    and "length (m_Data r) < 2 ^ 64"
    and "m_IndexIncrement r * m_PlaybackSpeed r = 1"
  shows "Resampler_run r (replicate n Call_Process) =
           Inr (take n (drop k (m_Data r)), r\<lparr> m_Index := real (k + n) \<rparr>)"
  using assms
proof (induction n arbitrary: r k)
  case 0
  then show ?case by simp
next
  case (Suc n)
  let ?r = "r\<lparr> m_Index := real k + 1 \<rparr>"
  from Suc.prems(3) have kl: "k < length (m_Data r)" by simp
  have step: "Process r = Inr (m_Data r ! k, ?r)"
    by (rule Process_unit_step [OF Suc.prems(1,2) kl Suc.prems(4,5)])
  have a: "m_LoopEnd ?r = 0" using Suc.prems(1) by simp
  have b: "m_Index ?r = real (Suc k)" by simp
  have c: "Suc k + n \<le> length (m_Data ?r)" using Suc.prems(3) by simp
  have d: "length (m_Data ?r) < 2 ^ 64" using Suc.prems(4) by simp
  have e: "m_IndexIncrement ?r * m_PlaybackSpeed ?r = 1" using Suc.prems(5) by simp
  have run: "Resampler_run ?r (replicate n Call_Process) =
           Inr (take n (drop (Suc k) (m_Data r)), r\<lparr> m_Index := real (Suc k + n) \<rparr>)"
    using Suc.IH [OF a b c d e] by simp
  have "take (Suc n) (drop k (m_Data r)) = m_Data r ! k # take n (drop (Suc k) (m_Data r))"
    using kl by (simp add: Cons_nth_drop_Suc [symmetric])
  then show ?case
    by (simp add: step run)
qed


lemma Process_fields:
  assumes "Process r = Inr (s, r')"
  shows "r' = r\<lparr> m_Index := m_Index r' \<rparr>"
  using assms
  by (auto simp: Process_def Let_def split: option.splits sum.splits if_splits)

lemma Process_cursor_nonneg:
  assumes "Process r = Inr (s, r')"
    and "0 \<le> m_Index r"
    and "m_LoopStart r \<le> m_LoopEnd r"
    and "0 \<le> m_IndexIncrement r * m_PlaybackSpeed r"
  shows "0 \<le> m_Index r'"
proof -
  have "unat (m_LoopEnd r - m_LoopStart r) \<le> unat (m_LoopEnd r)"
    using assms(3) by (simp add: unat_sub)
  then have w: "real (unat (m_LoopEnd r - m_LoopStart r)) \<le> real (unat (m_LoopEnd r))"
    by (rule of_nat_mono)
  from assms(1,2,4) w show ?thesis
    by (auto simp: Process_def Let_def split: option.splits sum.splits if_splits)
qed

lemma Resampler_run_cursor_nonneg:
  assumes "Resampler_run r cs = Inr (outs, r')"
    and "0 \<le> m_Index r"
    and "m_LoopStart r \<le> m_LoopEnd r"
    and "0 \<le> m_IndexIncrement r"
    and "0 \<le> m_PlaybackSpeed r"
    and "\<forall>p. Call_SetPlaybackSpeed p \<in> set cs \<longrightarrow> 0 \<le> p"
  shows "0 \<le> m_Index r'"
  using assms
proof (induction cs arbitrary: r outs)
  case Nil
  then show ?case by simp
next
  case (Cons c cs)
  from Cons.prems(6) have rest: "\<forall>p. Call_SetPlaybackSpeed p \<in> set cs \<longrightarrow> 0 \<le> p"
    by simp
  show ?case
  proof (cases c)
    case Call_Process
    with Cons.prems(1) obtain s r1 outs1 where
      step: "Process r = Inr (s, r1)" and run: "Resampler_run r1 cs = Inr (outs1, r')"
      by (auto split: sum.splits)
    have st: "0 \<le> m_IndexIncrement r * m_PlaybackSpeed r"
      using Cons.prems(4,5) by simp
    have i: "0 \<le> m_Index r1"
      by (rule Process_cursor_nonneg [OF step Cons.prems(2,3) st])
    from Process_fields [OF step] have f: "r1 = r\<lparr> m_Index := m_Index r1 \<rparr>" .
    have a: "m_LoopStart r1 \<le> m_LoopEnd r1" by (subst f, subst (2) f) (simp add: Cons.prems(3))
    have b: "0 \<le> m_IndexIncrement r1" by (subst f) (simp add: Cons.prems(4))
    have c: "0 \<le> m_PlaybackSpeed r1" by (subst f) (simp add: Cons.prems(5))
    show ?thesis by (rule Cons.IH [OF run i a b c rest])
  next
    case (Call_SetPlaybackSpeed q)
    let ?r = "SetPlaybackSpeed q r"
    from Cons.prems(1) have run: "Resampler_run ?r cs = Inr (outs, r')"
      by (simp add: Call_SetPlaybackSpeed)
    from Cons.prems(6) have q: "0 \<le> q" by (simp add: Call_SetPlaybackSpeed)
    have i: "0 \<le> m_Index ?r" using Cons.prems(2) by (simp add: SetPlaybackSpeed_def)
    have a: "m_LoopStart ?r \<le> m_LoopEnd ?r" using Cons.prems(3) by (simp add: SetPlaybackSpeed_def)
    have b: "0 \<le> m_IndexIncrement ?r" using Cons.prems(4) by (simp add: SetPlaybackSpeed_def)
    have c: "0 \<le> m_PlaybackSpeed ?r" using q by (simp add: SetPlaybackSpeed_def)
    show ?thesis by (rule Cons.IH [OF run i a b c rest])
  qed
qed


lemma Process_loop_step:
  assumes "m_LoopEnd r \<noteq> 0"
    and "unat (m_LoopEnd r) < length (m_Data r)"
    and "0 \<le> m_Index r"
    and "m_Index r < real (unat (m_LoopEnd r))"
  shows "\<exists>s. Process r = Inr (s, r\<lparr> m_Index :=
           (if real (unat (m_LoopEnd r)) \<le> m_Index r + m_IndexIncrement r * m_PlaybackSpeed r
            then m_Index r + m_IndexIncrement r * m_PlaybackSpeed r
                   - real (unat (m_LoopEnd r - m_LoopStart r))
            else m_Index r + m_IndexIncrement r * m_PlaybackSpeed r) \<rparr>)"
proof -
  define n where "n = nat \<lfloor>m_Index r\<rfloor>"
  have le64: "unat (m_LoopEnd r) < 2 ^ 64"
    using unsigned_less [of "m_LoopEnd r", where ?'a = nat] by simp
  have "\<lfloor>m_Index r\<rfloor> < int (unat (m_LoopEnd r))"
    using assms(4) by (simp add: floor_less_iff)
  then have n_le: "n < unat (m_LoopEnd r)"
    using assms(3) by (simp add: n_def nat_less_iff)
  with le64 have sn: "Suc n < 2 ^ 64" and n64: "n < 2 ^ 64" by simp_all
  have x64: "m_Index r < 2 ^ 64"
  proof -
    have "real (unat (m_LoopEnd r)) < real (2 ^ 64)"
      using le64 by (simp only: of_nat_less_iff)
    with assms(4) show ?thesis by simp
  qed
  have c: "to_uint64 (m_Index r) = Some (of_nat n)"
    using to_uint64_floor(1) [OF assms(3) x64] by (simp add: n_def)
  have u: "unat (of_nat n :: 64 word) = n" by (rule unat_of_nat64 [OF n64])
  have u1: "unat (of_nat n + 1 :: 64 word) = Suc n" by (rule unat_of_nat64_Suc [OF sn])
  from n_le assms(2) have nl: "n < length (m_Data r)" and snl: "Suc n < length (m_Data r)"
    by simp_all
  have a0: "at_index (m_Data r) (of_nat n) = Inr (m_Data r ! n)"
    using nl by (simp add: at_index_def u)
  have a1: "at_index (m_Data r) (of_nat n + 1) = Inr (m_Data r ! Suc n)"
    using snl by (simp add: at_index_def u1)
  show ?thesis
    unfolding Process_def c
    using assms(1) nl snl by (simp add: u u1 a0 a1 Let_def)
qed


lemma loop_step_in_window:
  fixes x st :: real and le ls :: "64 word"
  assumes "ls \<le> le" and "0 \<le> x" and "x < real (unat le)" and "0 \<le> st"
    and "st \<le> real (unat (le - ls))"
  shows "0 \<le> (if real (unat le) \<le> x + st then x + st - real (unat (le - ls)) else x + st)"
    and "(if real (unat le) \<le> x + st then x + st - real (unat (le - ls)) else x + st) < real (unat le)"
    and "real (unat le) \<le> x + st \<longrightarrow> real (unat ls) \<le> x + st - real (unat (le - ls))"
proof -
  have "unat ls \<le> unat le" using assms(1) by (simp add: word_le_nat_alt)
  then have w: "real (unat (le - ls)) = real (unat le) - real (unat ls)"
    using assms(1) by (simp only: unat_sub of_nat_diff)
  have l0: "0 \<le> real (unat ls)" by (rule of_nat_0_le_iff)
  show "0 \<le> (if real (unat le) \<le> x + st then x + st - real (unat (le - ls)) else x + st)"
    using assms(2,4) l0 unfolding w by (simp only: split: if_splits) linarith
  show "(if real (unat le) \<le> x + st then x + st - real (unat (le - ls)) else x + st) < real (unat le)"
    using assms(3,5) l0 unfolding w by (simp only: split: if_splits) linarith
  show "real (unat le) \<le> x + st \<longrightarrow> real (unat ls) \<le> x + st - real (unat (le - ls))"
    unfolding w by linarith
qed


lemma Resampler_run_loop:
  assumes "m_LoopEnd r \<noteq> 0"
    and "m_LoopStart r \<le> m_LoopEnd r"
    and "unat (m_LoopEnd r) < length (m_Data r)"
    and "0 \<le> m_Index r"
    and "m_Index r < real (unat (m_LoopEnd r))"
    and "0 \<le> m_IndexIncrement r * m_PlaybackSpeed r"
    and "m_IndexIncrement r * m_PlaybackSpeed r \<le> real (unat (m_LoopEnd r - m_LoopStart r))"
    and "\<forall>p. Call_SetPlaybackSpeed p \<in> set cs \<longrightarrow>
           0 \<le> m_IndexIncrement r * p
           \<and> m_IndexIncrement r * p \<le> real (unat (m_LoopEnd r - m_LoopStart r))"
  shows "\<exists>outs r'. Resampler_run r cs = Inr (outs, r')
           \<and> length outs = length (filter (\<lambda>c. c = Call_Process) cs)
           \<and> 0 \<le> m_Index r' \<and> m_Index r' < real (unat (m_LoopEnd r))"
  using assms
proof (induction cs arbitrary: r)
  case Nil
  then show ?case by simp
next
  case (Cons c cs)
  from Cons.prems(8) have rest: "\<forall>p. Call_SetPlaybackSpeed p \<in> set cs \<longrightarrow>
           0 \<le> m_IndexIncrement r * p
           \<and> m_IndexIncrement r * p \<le> real (unat (m_LoopEnd r - m_LoopStart r))"
    by simp
  show ?case
  proof (cases c)
    case Call_Process
    define x where "x = (if real (unat (m_LoopEnd r)) \<le> m_Index r + m_IndexIncrement r * m_PlaybackSpeed r
            then m_Index r + m_IndexIncrement r * m_PlaybackSpeed r
                   - real (unat (m_LoopEnd r - m_LoopStart r))
            else m_Index r + m_IndexIncrement r * m_PlaybackSpeed r)"
    define r1 where "r1 = r\<lparr> m_Index := x \<rparr>"
    from Process_loop_step [OF Cons.prems(1,3,4,5)] obtain s where
      step: "Process r = Inr (s, r1)"
      unfolding r1_def x_def by blast
    have x0: "0 \<le> x" and x1: "x < real (unat (m_LoopEnd r))"
      unfolding x_def
      by (rule loop_step_in_window [OF Cons.prems(2,4,5,6,7)])+
    have a: "m_LoopEnd r1 \<noteq> 0" using Cons.prems(1) by (simp add: r1_def)
    have b: "m_LoopStart r1 \<le> m_LoopEnd r1" using Cons.prems(2) by (simp add: r1_def)
    have c: "unat (m_LoopEnd r1) < length (m_Data r1)" using Cons.prems(3) by (simp add: r1_def)
    have d: "0 \<le> m_Index r1" using x0 by (simp add: r1_def)
    have e: "m_Index r1 < real (unat (m_LoopEnd r1))" using x1 by (simp add: r1_def)
    have f: "0 \<le> m_IndexIncrement r1 * m_PlaybackSpeed r1" using Cons.prems(6) by (simp add: r1_def)
    have g: "m_IndexIncrement r1 * m_PlaybackSpeed r1 \<le> real (unat (m_LoopEnd r1 - m_LoopStart r1))"
      using Cons.prems(7) by (simp add: r1_def)
    have h: "\<forall>p. Call_SetPlaybackSpeed p \<in> set cs \<longrightarrow>
           0 \<le> m_IndexIncrement r1 * p
           \<and> m_IndexIncrement r1 * p \<le> real (unat (m_LoopEnd r1 - m_LoopStart r1))"
      using rest by (simp add: r1_def)
    from Cons.IH [OF a b c d e f g h] obtain outs r' where
      run: "Resampler_run r1 cs = Inr (outs, r')"
      and len: "length outs = length (filter (\<lambda>c. c = Call_Process) cs)"
      and i0: "0 \<le> m_Index r'" and i1: "m_Index r' < real (unat (m_LoopEnd r1))"
      by blast
    have "Resampler_run r (c # cs) = Inr (s # outs, r')"
      by (simp add: Call_Process step run)
    moreover have "length (s # outs) = length (filter (\<lambda>c. c = Call_Process) (c # cs))"
      by (simp add: Call_Process len)
    moreover have "m_Index r' < real (unat (m_LoopEnd r))"
      using i1 by (simp add: r1_def)
    ultimately show ?thesis using i0 by blast
  next
    case (Call_SetPlaybackSpeed q)
    define r1 where "r1 = SetPlaybackSpeed q r"
    from Cons.prems(8) have q: "0 \<le> m_IndexIncrement r * q
           \<and> m_IndexIncrement r * q \<le> real (unat (m_LoopEnd r - m_LoopStart r))"
      by (simp add: Call_SetPlaybackSpeed)
    have a: "m_LoopEnd r1 \<noteq> 0" using Cons.prems(1) by (simp add: r1_def SetPlaybackSpeed_def)
    have b: "m_LoopStart r1 \<le> m_LoopEnd r1" using Cons.prems(2) by (simp add: r1_def SetPlaybackSpeed_def)
    have c: "unat (m_LoopEnd r1) < length (m_Data r1)" using Cons.prems(3) by (simp add: r1_def SetPlaybackSpeed_def)
    have d: "0 \<le> m_Index r1" using Cons.prems(4) by (simp add: r1_def SetPlaybackSpeed_def)
    have e: "m_Index r1 < real (unat (m_LoopEnd r1))" using Cons.prems(5) by (simp add: r1_def SetPlaybackSpeed_def)
    have f: "0 \<le> m_IndexIncrement r1 * m_PlaybackSpeed r1" using q by (simp add: r1_def SetPlaybackSpeed_def)
    have g: "m_IndexIncrement r1 * m_PlaybackSpeed r1 \<le> real (unat (m_LoopEnd r1 - m_LoopStart r1))"
      using q by (simp add: r1_def SetPlaybackSpeed_def)
    have h: "\<forall>p. Call_SetPlaybackSpeed p \<in> set cs \<longrightarrow>
           0 \<le> m_IndexIncrement r1 * p
           \<and> m_IndexIncrement r1 * p \<le> real (unat (m_LoopEnd r1 - m_LoopStart r1))"
      using rest by (simp add: r1_def SetPlaybackSpeed_def)
    from Cons.IH [OF a b c d e f g h] obtain outs r' where
      run: "Resampler_run r1 cs = Inr (outs, r')"
      and len: "length outs = length (filter (\<lambda>c. c = Call_Process) cs)"
      and i0: "0 \<le> m_Index r'" and i1: "m_Index r' < real (unat (m_LoopEnd r1))"
      by blast
    have "Resampler_run r (c # cs) = Inr (outs, r')"
      by (simp add: Call_SetPlaybackSpeed run [unfolded r1_def])
    moreover have "length outs = length (filter (\<lambda>c. c = Call_Process) (c # cs))"
      by (simp add: Call_SetPlaybackSpeed len)
    moreover have "m_Index r' < real (unat (m_LoopEnd r))"
      using i1 by (simp add: r1_def SetPlaybackSpeed_def)
    ultimately show ?thesis using i0 by blast
  qed
qed


text \<open>
  Claim C4 fails as stated: it holds only while the cursor is below \<open>2 ^ 64\<close>. A
  fresh Resampler over two frames without a loop, set to the playback speed
  \<open>2 ^ 64\<close>, returns its first frame and moves the cursor to \<open>2 ^ 64\<close>. The integer
  part of the cursor is then past the end of the buffer, but the next \<^verbatim>\<open>Process\<close>
  converts the cursor with \<^verbatim>\<open>size_t(m_Index)\<close>, which has no result for a value that
  does not fit the type: the call does not return the silent frame.
\<close>

theorem Resampler_cursor_overshoot_counterexample:
  "Resampler_run (Resampler_new (1/44100) [(1, 1), (2, 2)] 44100 0 0)
       [Call_SetPlaybackSpeed (2 ^ 64), Call_Process]
     = Inr ([(1, 1)], overshot_resampler)
   \<and> m_LoopEnd overshot_resampler = 0
   \<and> int (length (m_Data overshot_resampler)) \<le> \<lfloor>m_Index overshot_resampler\<rfloor>
   \<and> Process overshot_resampler = Inl FloatToUnsigned
   \<and> Process overshot_resampler \<noteq> Inr (silence, overshot_resampler)"
proof -
  have a: "Resampler_run (Resampler_new (1/44100) [(1, 1), (2, 2)] 44100 0 0)
       [Call_SetPlaybackSpeed (2 ^ 64), Call_Process]
     = Inr ([(1, 1)], overshot_resampler)"
    by (simp add: Resampler_new_def SetPlaybackSpeed_def Process_def to_uint64_def at_index_def
        Left_def Right_def Let_def overshot_resampler_def)
  have b: "m_LoopEnd overshot_resampler = 0"
    by (simp add: overshot_resampler_def)
  have "\<lfloor>(2::real) ^ 64\<rfloor> = 2 ^ 64"
    by (metis floor_numeral floor_power of_int_numeral)
  then have c: "int (length (m_Data overshot_resampler)) \<le> \<lfloor>m_Index overshot_resampler\<rfloor>"
    by (simp add: overshot_resampler_def)
  have d: "Process overshot_resampler = Inl FloatToUnsigned"
    by (simp add: Process_def to_uint64_def overshot_resampler_def)
  from a b c d show ?thesis by simp
qed

text \<open>
  Claim C4, amended. With no loop configured (\<^verbatim>\<open>m_LoopEnd = 0\<close>), once the integer
  part of the cursor is at or past the end of the buffer and the cursor is below
  \<open>2 ^ 64\<close>, \<^verbatim>\<open>Process\<close> returns the silent frame and leaves the whole object
  unchanged; hence in every later sequence of \<^verbatim>\<open>Process\<close> and \<^verbatim>\<open>SetPlaybackSpeed\<close>
  calls each \<^verbatim>\<open>Process\<close> returns silence and only the playback speed differs
  afterwards, whatever speeds are set.
\<close>

theorem Resampler_silent_past_end:
  assumes "m_LoopEnd r = 0"
    and "int (length (m_Data r)) \<le> \<lfloor>m_Index r\<rfloor>"
    and "m_Index r < 2 ^ 64"
  shows "Process r = Inr (silence, r)
     \<and> (\<exists>outs p. Resampler_run r cs = Inr (outs, r\<lparr> m_PlaybackSpeed := p \<rparr>)
           \<and> length outs = length (filter (\<lambda>c. c = Call_Process) cs)
           \<and> (\<forall>s \<in> set outs. s = silence))"
  using Process_past_end [OF assms] Resampler_run_past_end [OF assms] by blast

theorem Resampler_silent_past_end_witness:
  "m_LoopEnd past_end_resampler = 0
   \<and> int (length (m_Data past_end_resampler)) \<le> \<lfloor>m_Index past_end_resampler\<rfloor>
   \<and> m_Index past_end_resampler < 2 ^ 64
   \<and> Process past_end_resampler = Inr (silence, past_end_resampler)
   \<and> (\<exists>outs p. Resampler_run past_end_resampler
                   [Call_Process, Call_SetPlaybackSpeed (- 2), Call_Process]
                 = Inr (outs, past_end_resampler\<lparr> m_PlaybackSpeed := p \<rparr>)
        \<and> length outs = length (filter (\<lambda>c. c = Call_Process)
                                  [Call_Process, Call_SetPlaybackSpeed (- 2), Call_Process])
        \<and> (\<forall>s \<in> set outs. s = silence))"
proof -
  have a: "m_LoopEnd past_end_resampler = 0"
    by (simp add: past_end_resampler_def)
  have b: "int (length (m_Data past_end_resampler)) \<le> \<lfloor>m_Index past_end_resampler\<rfloor>"
    by (simp add: past_end_resampler_def)
  have c: "m_Index past_end_resampler < 2 ^ 64"
    by (simp add: past_end_resampler_def)
  from a b c Resampler_silent_past_end [OF a b c,
      of "[Call_Process, Call_SetPlaybackSpeed (- 2), Call_Process]"]
  show ?thesis by blast
qed

text \<open>
  Claim C5. A Resampler built with a source rate whose product with the tick
  duration is exactly 1 (the constructor sets the playback speed to 1) and no loop
  window returns, in its first \<open>n\<close> calls of \<^verbatim>\<open>Process\<close>, exactly the first \<open>n\<close>
  frames of the buffer, for every \<open>n\<close> up to the length of the buffer, and the cursor
  is then the integer \<open>n\<close> (the interpolation fraction is 0 at every call). So call
  number \<open>n\<close> (counting from 0) returns frame \<open>n\<close>. The size of a vector is below
  \<open>2 ^ 64\<close>.
\<close>

theorem Resampler_identity:
  assumes "of_int (sint SourceSampleRate) * OCAE_INC_RATE = 1"
    and "length AudioData < 2 ^ 64"
  shows "(\<forall>n \<le> length AudioData.
            Resampler_run (Resampler_new OCAE_INC_RATE AudioData SourceSampleRate LoopStart 0)
                (replicate n Call_Process)
              = Inr (take n AudioData,
                     (Resampler_new OCAE_INC_RATE AudioData SourceSampleRate LoopStart 0)
                       \<lparr> m_Index := real n \<rparr>))
     \<and> (\<forall>n < length AudioData. take (Suc n) AudioData ! n = AudioData ! n)"
proof (intro conjI allI impI)
  fix n
  assume n: "n \<le> length AudioData"
  let ?r = "Resampler_new OCAE_INC_RATE AudioData SourceSampleRate LoopStart 0"
  have a: "m_LoopEnd ?r = 0" by (simp add: Resampler_new_def)
  have b: "m_Index ?r = real 0" by (simp add: Resampler_new_def)
  have c: "0 + n \<le> length (m_Data ?r)" using n by (simp add: Resampler_new_def)
  have d: "length (m_Data ?r) < 2 ^ 64" using assms(2) by (simp add: Resampler_new_def)
  have e: "m_IndexIncrement ?r * m_PlaybackSpeed ?r = 1"
    using assms(1) by (simp add: Resampler_new_def)
  from Resampler_run_unit_steps [OF a b c d e]
  show "Resampler_run ?r (replicate n Call_Process)
          = Inr (take n AudioData, ?r\<lparr> m_Index := real n \<rparr>)"
    by (simp add: Resampler_new_def)
next
  fix n
  assume "n < length AudioData"
  show "take (Suc n) AudioData ! n = AudioData ! n" by simp
qed

theorem Resampler_identity_witness:
  "Resampler_run (Resampler_new (1/44100) [(1, - 1), (0, 0), (1/2, 1/4)] 44100 0 0)
       (replicate 3 Call_Process)
     = Inr ([(1, - 1), (0, 0), (1/2, 1/4)],
            (Resampler_new (1/44100) [(1, - 1), (0, 0), (1/2, 1/4)] 44100 0 0)
              \<lparr> m_Index := 3 \<rparr>)"
proof -
  have a: "of_int (sint (44100 :: 32 word)) * (1/44100 :: real) = 1" by simp
  have b: "length [(1, - 1), (0, 0), (1/2, 1/4) :: StereoData] < 2 ^ 64" by simp
  from Resampler_identity [OF a b, of 0]
  have "Resampler_run (Resampler_new (1/44100) [(1, - 1), (0, 0), (1/2, 1/4)] 44100 0 0)
                (replicate 3 Call_Process)
              = Inr (take 3 [(1, - 1), (0, 0), (1/2, 1/4)],
                     (Resampler_new (1/44100) [(1, - 1), (0, 0), (1/2, 1/4)] 44100 0 0)
                       \<lparr> m_Index := real 3 \<rparr>)"
    by simp
  then show ?thesis by simp
qed

text \<open>
  Claim C6 fails as stated. On a three-frame buffer with the loop window \<open>[0, 2)\<close>,
  setting the playback speed to \<open>- 1\<close> and calling \<^verbatim>\<open>Process\<close> once moves the cursor
  from 0 to \<open>- 1\<close>: the wrap is applied only at the upper end of the window. The
  next call converts the negative cursor to an unsigned index, which has no result.
\<close>

theorem Resampler_cursor_negative_counterexample:
  "Resampler_run (Resampler_new (1/44100) [(1, 1), (2, 2), (3, 3)] 44100 0 2)
       [Call_SetPlaybackSpeed (- 1), Call_Process]
     = Inr ([(1, 1)],
            \<lparr> m_Data = [(1, 1), (2, 2), (3, 3)], m_Index = - 1, m_IndexIncrement = 1,
              m_PlaybackSpeed = - 1, m_LoopStart = 0, m_LoopEnd = 2 \<rparr>)
   \<and> \<not> 0 \<le> m_Index \<lparr> m_Data = [(1, 1), (2, 2), (3, 3)], m_Index = - 1, m_IndexIncrement = 1,
              m_PlaybackSpeed = - 1, m_LoopStart = 0, m_LoopEnd = 2 \<rparr>
   \<and> Resampler_run (Resampler_new (1/44100) [(1, 1), (2, 2), (3, 3)] 44100 0 2)
       [Call_SetPlaybackSpeed (- 1), Call_Process, Call_Process]
     = Inl FloatToUnsigned"
  by (simp add: Resampler_new_def SetPlaybackSpeed_def Process_def to_uint64_def at_index_def
      Left_def Right_def Let_def)


text \<open>
  Claim C6, amended. Let the cursor be non-negative, \<^verbatim>\<open>m_LoopStart \<le> m_LoopEnd\<close>,
  the increment non-negative, and the current and every later playback speed
  non-negative. Then the cursor is non-negative after every sequence of
  \<^verbatim>\<open>Process\<close> and \<^verbatim>\<open>SetPlaybackSpeed\<close> calls that completes (the sequence is
  arbitrary, so this is the state after each operation of a longer one). If moreover a loop is
  configured (\<^verbatim>\<open>m_LoopEnd \<noteq> 0\<close>) with \<^verbatim>\<open>m_LoopEnd\<close> below the buffer size, the cursor
  is below \<^verbatim>\<open>m_LoopEnd\<close>, and no call advances it by more than the window length
  \<^verbatim>\<open>m_LoopEnd - m_LoopStart\<close>, then \<^verbatim>\<open>Process\<close> always returns a frame and never
  takes the terminal branch: it advances the cursor and, when the advanced cursor
  reaches \<^verbatim>\<open>m_LoopEnd\<close>, subtracts the window length, which puts it at or above
  \<^verbatim>\<open>m_LoopStart\<close>; every such sequence of calls completes with one frame per
  \<^verbatim>\<open>Process\<close> and the cursor in \<open>[0, m_LoopEnd)\<close>.
\<close>

theorem Resampler_cursor_nonneg:
  assumes "0 \<le> m_Index r"
    and "m_LoopStart r \<le> m_LoopEnd r"
    and "0 \<le> m_IndexIncrement r"
    and "0 \<le> m_PlaybackSpeed r"
    and "\<forall>p. Call_SetPlaybackSpeed p \<in> set cs \<longrightarrow> 0 \<le> p"
  shows "(\<forall>outs r'. Resampler_run r cs = Inr (outs, r') \<longrightarrow> 0 \<le> m_Index r')
     \<and> (m_LoopEnd r \<noteq> 0 \<and> unat (m_LoopEnd r) < length (m_Data r)
          \<and> m_Index r < real (unat (m_LoopEnd r))
          \<and> m_IndexIncrement r * m_PlaybackSpeed r \<le> real (unat (m_LoopEnd r - m_LoopStart r))
          \<and> (\<forall>p. Call_SetPlaybackSpeed p \<in> set cs \<longrightarrow>
                 m_IndexIncrement r * p \<le> real (unat (m_LoopEnd r - m_LoopStart r)))
        \<longrightarrow>
          (\<exists>s. Process r = Inr (s, r\<lparr> m_Index :=
             (if real (unat (m_LoopEnd r)) \<le> m_Index r + m_IndexIncrement r * m_PlaybackSpeed r
              then m_Index r + m_IndexIncrement r * m_PlaybackSpeed r
                     - real (unat (m_LoopEnd r - m_LoopStart r))
              else m_Index r + m_IndexIncrement r * m_PlaybackSpeed r) \<rparr>))
          \<and> (real (unat (m_LoopEnd r)) \<le> m_Index r + m_IndexIncrement r * m_PlaybackSpeed r
               \<longrightarrow> real (unat (m_LoopStart r))
                     \<le> m_Index r + m_IndexIncrement r * m_PlaybackSpeed r
                          - real (unat (m_LoopEnd r - m_LoopStart r)))
          \<and> (\<exists>outs r'. Resampler_run r cs = Inr (outs, r')
                 \<and> length outs = length (filter (\<lambda>c. c = Call_Process) cs)
                 \<and> 0 \<le> m_Index r' \<and> m_Index r' < real (unat (m_LoopEnd r))))"
proof (intro conjI allI impI)
  fix outs r'
  assume "Resampler_run r cs = Inr (outs, r')"
  then show "0 \<le> m_Index r'"
    by (rule Resampler_run_cursor_nonneg [OF _ assms])
next
  assume h: "m_LoopEnd r \<noteq> 0 \<and> unat (m_LoopEnd r) < length (m_Data r)
          \<and> m_Index r < real (unat (m_LoopEnd r))
          \<and> m_IndexIncrement r * m_PlaybackSpeed r \<le> real (unat (m_LoopEnd r - m_LoopStart r))
          \<and> (\<forall>p. Call_SetPlaybackSpeed p \<in> set cs \<longrightarrow>
                 m_IndexIncrement r * p \<le> real (unat (m_LoopEnd r - m_LoopStart r)))"
  then have a: "m_LoopEnd r \<noteq> 0" and b: "unat (m_LoopEnd r) < length (m_Data r)"
    and c: "m_Index r < real (unat (m_LoopEnd r))"
    by blast+
  show "\<exists>s. Process r = Inr (s, r\<lparr> m_Index :=
             (if real (unat (m_LoopEnd r)) \<le> m_Index r + m_IndexIncrement r * m_PlaybackSpeed r
              then m_Index r + m_IndexIncrement r * m_PlaybackSpeed r
                     - real (unat (m_LoopEnd r - m_LoopStart r))
              else m_Index r + m_IndexIncrement r * m_PlaybackSpeed r) \<rparr>)"
    by (rule Process_loop_step [OF a b assms(1) c])
next
  assume h: "m_LoopEnd r \<noteq> 0 \<and> unat (m_LoopEnd r) < length (m_Data r)
          \<and> m_Index r < real (unat (m_LoopEnd r))
          \<and> m_IndexIncrement r * m_PlaybackSpeed r \<le> real (unat (m_LoopEnd r - m_LoopStart r))
          \<and> (\<forall>p. Call_SetPlaybackSpeed p \<in> set cs \<longrightarrow>
                 m_IndexIncrement r * p \<le> real (unat (m_LoopEnd r - m_LoopStart r)))"
    and "real (unat (m_LoopEnd r)) \<le> m_Index r + m_IndexIncrement r * m_PlaybackSpeed r"
  have st0: "0 \<le> m_IndexIncrement r * m_PlaybackSpeed r"
    using assms(3,4) by simp
  from h have c: "m_Index r < real (unat (m_LoopEnd r))"
    and d: "m_IndexIncrement r * m_PlaybackSpeed r \<le> real (unat (m_LoopEnd r - m_LoopStart r))"
    by blast+
  from loop_step_in_window(3) [OF assms(2,1) c st0 d]
    \<open>real (unat (m_LoopEnd r)) \<le> m_Index r + m_IndexIncrement r * m_PlaybackSpeed r\<close>
  show "real (unat (m_LoopStart r))
          \<le> m_Index r + m_IndexIncrement r * m_PlaybackSpeed r
               - real (unat (m_LoopEnd r - m_LoopStart r))"
    by blast
next
  assume h: "m_LoopEnd r \<noteq> 0 \<and> unat (m_LoopEnd r) < length (m_Data r)
          \<and> m_Index r < real (unat (m_LoopEnd r))
          \<and> m_IndexIncrement r * m_PlaybackSpeed r \<le> real (unat (m_LoopEnd r - m_LoopStart r))
          \<and> (\<forall>p. Call_SetPlaybackSpeed p \<in> set cs \<longrightarrow>
                 m_IndexIncrement r * p \<le> real (unat (m_LoopEnd r - m_LoopStart r)))"
  then have a: "m_LoopEnd r \<noteq> 0" and b: "unat (m_LoopEnd r) < length (m_Data r)"
    and c: "m_Index r < real (unat (m_LoopEnd r))"
    and d: "m_IndexIncrement r * m_PlaybackSpeed r \<le> real (unat (m_LoopEnd r - m_LoopStart r))"
    and e: "\<forall>p. Call_SetPlaybackSpeed p \<in> set cs \<longrightarrow>
                 m_IndexIncrement r * p \<le> real (unat (m_LoopEnd r - m_LoopStart r))"
    by blast+
  have st0: "0 \<le> m_IndexIncrement r * m_PlaybackSpeed r"
    using assms(3,4) by simp
  have f: "\<forall>p. Call_SetPlaybackSpeed p \<in> set cs \<longrightarrow>
           0 \<le> m_IndexIncrement r * p
           \<and> m_IndexIncrement r * p \<le> real (unat (m_LoopEnd r - m_LoopStart r))"
    using e assms(3,5) by simp
  show "\<exists>outs r'. Resampler_run r cs = Inr (outs, r')
                 \<and> length outs = length (filter (\<lambda>c. c = Call_Process) cs)
                 \<and> 0 \<le> m_Index r' \<and> m_Index r' < real (unat (m_LoopEnd r))"
    by (rule Resampler_run_loop [OF a assms(2) b assms(1) c st0 d f])
qed

lemma looping_resampler_run:
  "Resampler_run looping_resampler
       [Call_Process, Call_SetPlaybackSpeed (3/2), Call_Process, Call_Process]
     = Inr ([(1, 1), (2, 2), (3/2, 3/2)],
            \<lparr> m_Data = [(1, 1), (2, 2), (3, 3)], m_Index = 0, m_IndexIncrement = 1,
              m_PlaybackSpeed = 3/2, m_LoopStart = 0, m_LoopEnd = 2 \<rparr>)"
  by (simp add: looping_resampler_def Resampler_new_def SetPlaybackSpeed_def Process_def
      to_uint64_def at_index_def Left_def Right_def Let_def)

theorem Resampler_cursor_nonneg_witness:
  "0 \<le> m_Index looping_resampler
   \<and> m_LoopStart looping_resampler \<le> m_LoopEnd looping_resampler
   \<and> m_LoopEnd looping_resampler \<noteq> 0
   \<and> Resampler_run looping_resampler
          [Call_Process, Call_SetPlaybackSpeed (3/2), Call_Process, Call_Process]
        = Inr ([(1, 1), (2, 2), (3/2, 3/2)],
            \<lparr> m_Data = [(1, 1), (2, 2), (3, 3)], m_Index = 0, m_IndexIncrement = 1,
              m_PlaybackSpeed = 3/2, m_LoopStart = 0, m_LoopEnd = 2 \<rparr>)
   \<and> 0 \<le> m_Index \<lparr> m_Data = [(1, 1), (2, 2), (3, 3)], m_Index = 0, m_IndexIncrement = 1,
              m_PlaybackSpeed = 3/2, m_LoopStart = 0, m_LoopEnd = 2 \<rparr>
   \<and> (\<exists>outs r'. Resampler_run looping_resampler
          [Call_Process, Call_SetPlaybackSpeed (3/2), Call_Process, Call_Process] = Inr (outs, r')
        \<and> 0 \<le> m_Index r' \<and> m_Index r' < real (unat (m_LoopEnd looping_resampler)))"
proof -
  let ?cs = "[Call_Process, Call_SetPlaybackSpeed (3/2), Call_Process, Call_Process]"
  have a: "0 \<le> m_Index looping_resampler"
    by (simp add: looping_resampler_def Resampler_new_def)
  have b: "m_LoopStart looping_resampler \<le> m_LoopEnd looping_resampler"
    by (simp add: looping_resampler_def Resampler_new_def)
  have c: "0 \<le> m_IndexIncrement looping_resampler"
    by (simp add: looping_resampler_def Resampler_new_def)
  have d: "0 \<le> m_PlaybackSpeed looping_resampler"
    by (simp add: looping_resampler_def Resampler_new_def)
  have e: "\<forall>p. Call_SetPlaybackSpeed p \<in> set ?cs \<longrightarrow> 0 \<le> p"
    by simp
  have f: "m_LoopEnd looping_resampler \<noteq> 0"
    by (simp add: looping_resampler_def Resampler_new_def)
  have g: "m_LoopEnd looping_resampler \<noteq> 0
          \<and> unat (m_LoopEnd looping_resampler) < length (m_Data looping_resampler)
          \<and> m_Index looping_resampler < real (unat (m_LoopEnd looping_resampler))
          \<and> m_IndexIncrement looping_resampler * m_PlaybackSpeed looping_resampler
              \<le> real (unat (m_LoopEnd looping_resampler - m_LoopStart looping_resampler))
          \<and> (\<forall>p. Call_SetPlaybackSpeed p \<in> set ?cs \<longrightarrow>
                 m_IndexIncrement looping_resampler * p
                   \<le> real (unat (m_LoopEnd looping_resampler - m_LoopStart looping_resampler)))"
    by (simp add: looping_resampler_def Resampler_new_def)
  note t = Resampler_cursor_nonneg [OF a b c d e]
  from t looping_resampler_run
  have h: "0 \<le> m_Index \<lparr> m_Data = [(1, 1), (2, 2), (3, 3)], m_Index = 0, m_IndexIncrement = 1,
              m_PlaybackSpeed = 3/2, m_LoopStart = 0, m_LoopEnd = 2 \<rparr>"
    by blast
  from t g have k: "\<exists>outs r'. Resampler_run looping_resampler ?cs = Inr (outs, r')
        \<and> 0 \<le> m_Index r' \<and> m_Index r' < real (unat (m_LoopEnd looping_resampler))"
    by blast
  from a b f looping_resampler_run h k show ?thesis by blast
qed

section \<open>Properties of the Triangle oscillator\<close>

lemma Triangle_SendSample_inv:
  assumes "\<bar>m_Irate t\<bar> \<le> 2" and "\<bar>m_Inc t\<bar> \<le> 1"
  shows "\<bar>m_Irate (snd (Triangle_SendSample t))\<bar> \<le> 2"
    and "\<bar>m_Inc (snd (Triangle_SendSample t))\<bar> \<le> 1"
    and "fst (Triangle_SendSample t) =
           (m_Inc (snd (Triangle_SendSample t)), m_Inc (snd (Triangle_SendSample t)))"
  using assms by (auto simp: Triangle_SendSample_def Let_def MONO_TO_STEREO_def)

lemma Triangle_SetFrequency_inv:
  assumes "\<bar>4 * f * INC_RATE\<bar> \<le> 2"
  shows "\<bar>m_Irate (Triangle_SetFrequency INC_RATE f t)\<bar> \<le> 2"
    and "m_Inc (Triangle_SetFrequency INC_RATE f t) = m_Inc t"
  using assms by (auto simp: Triangle_SetFrequency_def Let_def)

lemma Triangle_run_bounded:
  assumes "\<bar>m_Irate t\<bar> \<le> 2" and "\<bar>m_Inc t\<bar> \<le> 1"
    and "\<forall>f. Tri_SetFrequency f \<in> set cs \<longrightarrow> \<bar>4 * f * INC_RATE\<bar> \<le> 2"
  shows "\<forall>s \<in> set (fst (Triangle_run INC_RATE t cs)).
           - 1 \<le> Left s \<and> Left s \<le> 1 \<and> - 1 \<le> Right s \<and> Right s \<le> 1"
  using assms
proof (induction cs arbitrary: t)
  case Nil
  then show ?case by simp
next
  case (Cons c cs)
  from Cons.prems(3) have k: "\<forall>f. Tri_SetFrequency f \<in> set cs \<longrightarrow> \<bar>4 * f * INC_RATE\<bar> \<le> 2"
    by simp
  show ?case
  proof (cases c)
    case Tri_SendSample
    obtain s t' where st: "Triangle_SendSample t = (s, t')"
      by (cases "Triangle_SendSample t")
    from Triangle_SendSample_inv [OF Cons.prems(1,2)] st
    have i: "\<bar>m_Irate t'\<bar> \<le> 2" and j: "\<bar>m_Inc t'\<bar> \<le> 1" and s: "s = (m_Inc t', m_Inc t')"
      by simp_all
    from Cons.IH [OF i j k] j s show ?thesis
      by (auto simp: Tri_SendSample st Left_def Right_def split: prod.splits)
  next
    case (Tri_SetFrequency f)
    with Cons.prems(3) have f: "\<bar>4 * f * INC_RATE\<bar> \<le> 2" by simp
    from Triangle_SetFrequency_inv [OF f, of t] Cons.prems(2)
    have i: "\<bar>m_Irate (Triangle_SetFrequency INC_RATE f t)\<bar> \<le> 2"
      and j: "\<bar>m_Inc (Triangle_SetFrequency INC_RATE f t)\<bar> \<le> 1"
      by simp_all
    from Cons.IH [OF i j k] show ?thesis
      by (simp add: Tri_SetFrequency)
  qed
qed

text \<open>A run at a quarter of the tick rate (\<^verbatim>\<open>irate = 1\<close>), with a change to half the
  tick rate (\<^verbatim>\<open>irate = 2\<close> in absolute value) in between.\<close>

lemma Triangle_run_example:
  "fst (Triangle_run (1/44100) (Triangle_new (1/44100) 11025)
          [Tri_SendSample, Tri_SendSample, Tri_SetFrequency 22050, Tri_SendSample, Tri_SendSample])
    = [(1, 1), (0, 0), (0, 0), (0, 0)]"
  by (simp add: Triangle_new_def Triangle_SendSample_def Triangle_SetFrequency_def Let_def
      MONO_TO_STEREO_def)

text \<open>
  Claim C7 fails as stated. With a tick duration of \<open>1/44100\<close> and the frequency
  55125, \<^verbatim>\<open>irate\<close> is 5; the first call adds it to the accumulator 0, reflects 5 to
  \<open>2 - 5\<close> and returns \<open>- 3\<close> on both channels.
\<close>

theorem Triangle_out_of_range_counterexample:
  "fst (Triangle_SendSample (Triangle_new (1/44100) 55125)) = (- 3, - 3)
   \<and> \<not> (- 1 \<le> Left (fst (Triangle_SendSample (Triangle_new (1/44100) 55125))))"
  by (simp add: Triangle_new_def Triangle_SendSample_def Let_def MONO_TO_STEREO_def Left_def)

text \<open>
  Claim C7, amended. For a Triangle oscillator built with a frequency for which
  \<open>\<bar>irate\<bar> = \<bar>4 * f * tickDuration\<bar> \<le> 2\<close>, and whose later \<^verbatim>\<open>SetFrequency\<close> calls
  all keep that bound, every frame produced by \<^verbatim>\<open>SendSample\<close> lies within
  \<open>[- 1, 1]\<close> on both channels.
\<close>

theorem Triangle_bounded:
  assumes "\<bar>4 * frequency * INC_RATE\<bar> \<le> 2"
    and "\<forall>f. Tri_SetFrequency f \<in> set cs \<longrightarrow> \<bar>4 * f * INC_RATE\<bar> \<le> 2"
  shows "\<forall>s \<in> set (fst (Triangle_run INC_RATE (Triangle_new INC_RATE frequency) cs)).
           - 1 \<le> Left s \<and> Left s \<le> 1 \<and> - 1 \<le> Right s \<and> Right s \<le> 1"
proof -
  have i: "\<bar>m_Irate (Triangle_new INC_RATE frequency)\<bar> \<le> 2"
    using assms(1) by (simp add: Triangle_new_def)
  have j: "\<bar>m_Inc (Triangle_new INC_RATE frequency)\<bar> \<le> 1"
    by (simp add: Triangle_new_def)
  from Triangle_run_bounded [OF i j assms(2)] show ?thesis .
qed

theorem Triangle_bounded_witness:
  "\<bar>4 * 11025 * (1/44100)\<bar> \<le> (2 :: real)
   \<and> list_all (\<lambda>s. - 1 \<le> Left s \<and> Left s \<le> 1 \<and> - 1 \<le> Right s \<and> Right s \<le> 1)
        (fst (Triangle_run (1/44100) (Triangle_new (1/44100) 11025)
          [Tri_SendSample, Tri_SendSample, Tri_SetFrequency 22050, Tri_SendSample, Tri_SendSample]))"
proof -
  have a: "\<bar>4 * 11025 * (1/44100)\<bar> \<le> (2 :: real)" by simp
  have b: "\<forall>f. Tri_SetFrequency f \<in> set [Tri_SendSample, Tri_SendSample, Tri_SetFrequency 22050,
                 Tri_SendSample, Tri_SendSample] \<longrightarrow> \<bar>4 * f * (1/44100)\<bar> \<le> (2 :: real)"
    by simp
  from Triangle_bounded [OF a b]
  have "list_all (\<lambda>s. - 1 \<le> Left s \<and> Left s \<le> 1 \<and> - 1 \<le> Right s \<and> Right s \<le> 1)
        (fst (Triangle_run (1/44100) (Triangle_new (1/44100) 11025)
          [Tri_SendSample, Tri_SendSample, Tri_SetFrequency 22050, Tri_SendSample, Tri_SendSample]))"
    by (simp only: list_all_iff)
  with a show ?thesis by (rule conjI)
qed


section \<open>Properties of the MethodTable\<close>

text \<open>
  Claim C1. \<^verbatim>\<open>CallMethod\<close> on a name that is not registered in the table of the
  instance ends with the exception of the failed lookup and does not return
  normally; on a registered name it invokes the registered callable on the packed
  arguments. The same holds for the older class with the static table, where the
  lookup also fails when the instance has no table at all.
\<close>

theorem CallMethod_lookup:
  "(m_Table fn = None \<longrightarrow> CallMethod m_Table fn params s = Inl out_of_range)
   \<and> (\<forall>f. m_Table fn = Some f \<longrightarrow> CallMethod m_Table fn params s = Inr (f params s))
   \<and> (s_Table this = None \<or> (\<exists>table. s_Table this = Some table \<and> table fn = None)
        \<longrightarrow> CallMethod_static s_Table this fn params s = Inl out_of_range)
   \<and> (\<forall>table f. s_Table this = Some table \<and> table fn = Some f
        \<longrightarrow> CallMethod_static s_Table this fn params s = Inr (f params s))"
  by (auto simp: CallMethod_def CallMethod_static_def)

theorem CallMethod_lookup_witness:
  "Triangle_table ''GetFrequency'' = None
   \<and> CallMethod Triangle_table ''GetFrequency'' 880 (Triangle_new (1/44100) 440) = Inl out_of_range
   \<and> CallMethod Triangle_table ''SetFrequency'' 880 (Triangle_new (1/44100) 440)
       = Inr (Triangle_SetFrequency (1/44100) 880 (Triangle_new (1/44100) 440))
   \<and> CallMethod_static [7 \<mapsto> Triangle_table] 7 ''GetFrequency'' 880 (Triangle_new (1/44100) 440)
       = Inl out_of_range
   \<and> CallMethod_static [7 \<mapsto> Triangle_table] 8 ''SetFrequency'' 880 (Triangle_new (1/44100) 440)
       = Inl out_of_range
   \<and> CallMethod_static [7 \<mapsto> Triangle_table] 7 ''SetFrequency'' 880 (Triangle_new (1/44100) 440)
       = Inr (Triangle_SetFrequency (1/44100) 880 (Triangle_new (1/44100) 440))"
proof -
  let ?t = "Triangle_new (1/44100) 440"
  have n: "Triangle_table ''GetFrequency'' = None"
    by (simp add: Triangle_table_def Triangle_CreateMethodList_def)
  have r: "Triangle_table ''SetFrequency'' = Some (\<lambda>f. Triangle_SetFrequency (1/44100) f)"
    by (simp add: Triangle_table_def Triangle_CreateMethodList_def)
  have i7: "[7 \<mapsto> Triangle_table] (7::nat) = Some Triangle_table" by simp
  have i8: "[7 \<mapsto> Triangle_table] (8::nat) = None" by simp
  from CallMethod_lookup [of Triangle_table "''GetFrequency''" 880 ?t "[7 \<mapsto> Triangle_table]" 7] n i7
  have a: "CallMethod Triangle_table ''GetFrequency'' 880 ?t = Inl out_of_range"
    and c: "CallMethod_static [7 \<mapsto> Triangle_table] 7 ''GetFrequency'' 880 ?t = Inl out_of_range"
    by blast+
  from CallMethod_lookup [of Triangle_table "''SetFrequency''" 880 ?t "[7 \<mapsto> Triangle_table]" 7] r i7
  have b: "CallMethod Triangle_table ''SetFrequency'' 880 ?t
             = Inr (Triangle_SetFrequency (1/44100) 880 ?t)"
    and e: "CallMethod_static [7 \<mapsto> Triangle_table] 7 ''SetFrequency'' 880 ?t
             = Inr (Triangle_SetFrequency (1/44100) 880 ?t)"
    by blast+
  from CallMethod_lookup [of Triangle_table "''SetFrequency''" 880 ?t "[7 \<mapsto> Triangle_table]" 8] i8
  have d: "CallMethod_static [7 \<mapsto> Triangle_table] 8 ''SetFrequency'' 880 ?t = Inl out_of_range"
    by blast
  from n a b c d e show ?thesis by blast
qed


section \<open>Properties of the Node\<close>

lemma fold_write_cell:
  "fold (write_cell v) as st a = (if a \<in> set as then v else st a)"
  by (induction as arbitrary: st) (auto simp: write_cell_def)

text \<open>
  Claim C2. With the default interactor of its constructor, \<^verbatim>\<open>SendSample\<close> of a
  generator-only Node produces the generator's frame unchanged, of a modifier-only
  Node the modifier's output for the contents of the input cell unchanged, and of a
  Node with both the per-channel product (left with left, right with right) of the
  two; that frame is what it writes into its output cell and into the cell of
  every target. Nothing is assumed about the frames, so zero and negative
  amplitudes are included.
\<close>

theorem Node_default_interaction:
  "(\<forall>a \<in> set (outp # ts).
      fst (Node_SendSample ((Node_gen inp outp (next_frame, gs) :: ('g, 'm) Node)\<lparr> m_Targets := ts \<rparr>) st)
        = fst (next_frame gs)
      \<and> snd (snd (Node_SendSample ((Node_gen inp outp (next_frame, gs) :: ('g, 'm) Node)\<lparr> m_Targets := ts \<rparr>) st)) a
        = fst (next_frame gs))
   \<and> (\<forall>a \<in> set (outp # ts).
      fst (Node_SendSample ((Node_mod inp outp (process, ms) :: ('g, 'm) Node)\<lparr> m_Targets := ts \<rparr>) st)
        = fst (process ms (st inp))
      \<and> snd (snd (Node_SendSample ((Node_mod inp outp (process, ms) :: ('g, 'm) Node)\<lparr> m_Targets := ts \<rparr>) st)) a
        = fst (process ms (st inp)))
   \<and> (\<forall>a \<in> set (outp # ts).
      fst (Node_SendSample
             ((Node_gen_mod inp outp (next_frame, gs) (process, ms) :: ('g, 'm) Node)\<lparr> m_Targets := ts \<rparr>) st)
        = (Left (fst (next_frame gs)) * Left (fst (process ms (st inp))),
           Right (fst (next_frame gs)) * Right (fst (process ms (st inp))))
      \<and> snd (snd (Node_SendSample
             ((Node_gen_mod inp outp (next_frame, gs) (process, ms) :: ('g, 'm) Node)\<lparr> m_Targets := ts \<rparr>) st)) a
        = (Left (fst (next_frame gs)) * Left (fst (process ms (st inp))),
           Right (fst (next_frame gs)) * Right (fst (process ms (st inp)))))"
proof (intro conjI ballI)
  fix a assume a: "a \<in> set (outp # ts)"
  show "fst (Node_SendSample ((Node_gen inp outp (next_frame, gs) :: ('g, 'm) Node)\<lparr> m_Targets := ts \<rparr>) st)
        = fst (next_frame gs)"
    by (simp add: Node_SendSample_def Node_gen_def Let_def split: prod.splits)
  show "snd (snd (Node_SendSample ((Node_gen inp outp (next_frame, gs) :: ('g, 'm) Node)\<lparr> m_Targets := ts \<rparr>) st)) a
        = fst (next_frame gs)"
    using a
    by (auto simp: fold_write_cell write_cell_def Node_SendSample_def Node_gen_def Let_def split: prod.splits)
next
  fix a assume a: "a \<in> set (outp # ts)"
  show "fst (Node_SendSample ((Node_mod inp outp (process, ms) :: ('g, 'm) Node)\<lparr> m_Targets := ts \<rparr>) st)
        = fst (process ms (st inp))"
    by (simp add: Node_SendSample_def Node_mod_def Let_def split: prod.splits)
  show "snd (snd (Node_SendSample ((Node_mod inp outp (process, ms) :: ('g, 'm) Node)\<lparr> m_Targets := ts \<rparr>) st)) a
        = fst (process ms (st inp))"
    using a
    by (auto simp: fold_write_cell write_cell_def Node_SendSample_def Node_mod_def Let_def split: prod.splits)
next
  fix a assume a: "a \<in> set (outp # ts)"
  show "fst (Node_SendSample
             ((Node_gen_mod inp outp (next_frame, gs) (process, ms) :: ('g, 'm) Node)\<lparr> m_Targets := ts \<rparr>) st)
        = (Left (fst (next_frame gs)) * Left (fst (process ms (st inp))),
           Right (fst (next_frame gs)) * Right (fst (process ms (st inp))))"
    by (simp add: Node_SendSample_def Node_gen_mod_def Let_def split: prod.splits)
  show "snd (snd (Node_SendSample
             ((Node_gen_mod inp outp (next_frame, gs) (process, ms) :: ('g, 'm) Node)\<lparr> m_Targets := ts \<rparr>) st)) a
        = (Left (fst (next_frame gs)) * Left (fst (process ms (st inp))),
           Right (fst (next_frame gs)) * Right (fst (process ms (st inp))))"
    using a
    by (auto simp: fold_write_cell write_cell_def Node_SendSample_def Node_gen_mod_def Let_def split: prod.splits)
qed


theorem Node_default_interaction_witness:
  "fst (Node_SendSample
          ((Node_gen 0 1 example_generator :: (Triangle, unit) Node)\<lparr> m_Targets := [2, 3] \<rparr>)
          example_store) = (1/2, 1/2)
   \<and> snd (snd (Node_SendSample
          ((Node_gen 0 1 example_generator :: (Triangle, unit) Node)\<lparr> m_Targets := [2, 3] \<rparr>)
          example_store)) 3 = (1/2, 1/2)
   \<and> fst (Node_SendSample
          ((Node_mod 0 1 example_modifier :: (Triangle, unit) Node)\<lparr> m_Targets := [2, 3] \<rparr>)
          example_store) = (0, 3)
   \<and> snd (snd (Node_SendSample
          ((Node_mod 0 1 example_modifier :: (Triangle, unit) Node)\<lparr> m_Targets := [2, 3] \<rparr>)
          example_store)) 1 = (0, 3)
   \<and> fst (Node_SendSample
          ((Node_gen_mod 0 1 example_generator example_modifier)\<lparr> m_Targets := [2, 3] \<rparr>)
          example_store) = (0, 3/2)
   \<and> snd (snd (Node_SendSample
          ((Node_gen_mod 0 1 example_generator example_modifier)\<lparr> m_Targets := [2, 3] \<rparr>)
          example_store)) 2 = (0, 3/2)"
proof -
  let ?nf = Triangle_SendSample
  let ?gs = "Triangle_new (1/44100) (11025/2)"
  let ?pr = "\<lambda>(ms::unit) x. ((- Left x, - Right x), ms)"
  have g: "fst (?nf ?gs) = (1/2, 1/2)"
    by (simp add: Triangle_new_def Triangle_SendSample_def Let_def MONO_TO_STEREO_def)
  have m: "fst (?pr () (example_store 0)) = (0, 3)"
    by (simp add: example_store_def Left_def Right_def)
  have p: "(Left (fst (?nf ?gs)) * Left (fst (?pr () (example_store 0))),
            Right (fst (?nf ?gs)) * Right (fst (?pr () (example_store 0)))) = (0, 3/2)"
    by (simp only: g m) (simp add: Left_def Right_def)
  have i1: "(1::nat) \<in> set (1 # [2, 3])" and i2: "(2::nat) \<in> set (1 # [2, 3])"
    and i3: "(3::nat) \<in> set (1 # [2, 3])"
    by simp_all
  note t = Node_default_interaction [of 1 "[2, 3]" 0 ?nf ?gs example_store ?pr "()"]
  from t i3 have a:
    "fst (Node_SendSample
          ((Node_gen 0 1 (?nf, ?gs) :: (Triangle, unit) Node)\<lparr> m_Targets := [2, 3] \<rparr>)
          example_store) = fst (?nf ?gs)
     \<and> snd (snd (Node_SendSample
          ((Node_gen 0 1 (?nf, ?gs) :: (Triangle, unit) Node)\<lparr> m_Targets := [2, 3] \<rparr>)
          example_store)) 3 = fst (?nf ?gs)"
    by blast
  from t i1 have b:
    "fst (Node_SendSample
          ((Node_mod 0 1 (?pr, ()) :: (Triangle, unit) Node)\<lparr> m_Targets := [2, 3] \<rparr>)
          example_store) = fst (?pr () (example_store 0))
     \<and> snd (snd (Node_SendSample
          ((Node_mod 0 1 (?pr, ()) :: (Triangle, unit) Node)\<lparr> m_Targets := [2, 3] \<rparr>)
          example_store)) 1 = fst (?pr () (example_store 0))"
    by blast
  from t i2 have c:
    "fst (Node_SendSample
          ((Node_gen_mod 0 1 (?nf, ?gs) (?pr, ()))\<lparr> m_Targets := [2, 3] \<rparr>)
          example_store)
       = (Left (fst (?nf ?gs)) * Left (fst (?pr () (example_store 0))),
          Right (fst (?nf ?gs)) * Right (fst (?pr () (example_store 0))))
     \<and> snd (snd (Node_SendSample
          ((Node_gen_mod 0 1 (?nf, ?gs) (?pr, ()))\<lparr> m_Targets := [2, 3] \<rparr>)
          example_store)) 2
       = (Left (fst (?nf ?gs)) * Left (fst (?pr () (example_store 0))),
          Right (fst (?nf ?gs)) * Right (fst (?pr () (example_store 0))))"
    by blast
  from a b c show ?thesis
    unfolding example_generator_def example_modifier_def
    by (simp only: g m) (simp add: Left_def Right_def)
qed


section \<open>The Vocoder's offset\<close>

text \<open>
  Claim C8 against the code. A Vocoder with two bands is built with the carrier
  frequencies 220 and 440 (\<^verbatim>\<open>freq[0]\<close>, \<^verbatim>\<open>freq[1]\<close>). \<^verbatim>\<open>SetOffset(0)\<close>, whose
  factor \<open>2 powr (0 / 1200)\<close> is 1, sets them to 440 and 660 (\<^verbatim>\<open>freq[1]\<close>,
  \<^verbatim>\<open>freq[2]\<close>), and \<^verbatim>\<open>SetOffset(1200)\<close>, whose factor is 2, to 880 and 1320: each
  carrier receives the base frequency of the next one. With four bands the last
  carrier reads \<^verbatim>\<open>freq[4]\<close>, beyond the end of the array.
\<close>

theorem Vocoder_SetOffset_shifted:
  "Vocoder_new 2 = Inr \<lparr> m_BandCount = 2, m_Mu = 1, carriers = [220, 440] \<rparr>
   \<and> SetOffset 0 \<lparr> m_BandCount = 2, m_Mu = 1, carriers = [220, 440] \<rparr>
       = Inr \<lparr> m_BandCount = 2, m_Mu = 1, carriers = [440, 660] \<rparr>
   \<and> SetOffset 1200 \<lparr> m_BandCount = 2, m_Mu = 1, carriers = [220, 440] \<rparr>
       = Inr \<lparr> m_BandCount = 2, m_Mu = 2, carriers = [880, 1320] \<rparr>
   \<and> Vocoder_new 4 = Inr \<lparr> m_BandCount = 4, m_Mu = 1, carriers = [220, 440, 660, 880] \<rparr>
   \<and> SetOffset 0 \<lparr> m_BandCount = 4, m_Mu = 1, carriers = [220, 440, 660, 880] \<rparr>
       = Inl IndexOutOfRange"
  by (simp add: Vocoder_new_def OscSetup_def SetOffset_def freq_at_def freq_def Let_def upt_rec)


section \<open>Properties of the WAV generator\<close>


lemma good_fmt:
  "canonical_GetChunk good_wav ''fmt '' = [1, 0,  2, 0,  0x44, 0xAC, 0, 0,  0x88, 0x58, 0x01, 0,  2, 0,  8, 0]"
  by (simp add: canonical_GetChunk_def good_wav_def Let_def)

lemma good_data:
  "canonical_GetChunk good_wav ''data'' = [64, 64, 32, 224]"
  by (simp add: canonical_GetChunk_def good_wav_def Let_def)

lemma good_header:
  "canonical_as_WAVHeader [1, 0,  2, 0,  0x44, 0xAC, 0, 0,  0x88, 0x58, 0x01, 0,  2, 0,  8, 0]
     = \<lparr> ChannelCount = 2, SamplingRate = 44100, BytesPerSample = 2, BitsPerSample = 8 \<rparr>"
  by (simp add: canonical_as_WAVHeader_def)

lemma good_loop:
  "ParseWAV_loop canonical_environment
      \<lparr> ChannelCount = 2, SamplingRate = 44100, BytesPerSample = 2, BitsPerSample = 8 \<rparr>
      [64, 64, 32, 224] 0 = Inr [(1/2, 1/2), (1/4, - 1/4)]"
  by (simp add: read_sample_def char_at_def)

lemma malformed_fmt:
  "length (canonical_GetChunk malformed_wav ''fmt '') = 14"
  by (simp add: canonical_GetChunk_def malformed_wav_def Let_def)

lemma canonical_environment_fields:
  "env_GetChunk canonical_environment = canonical_GetChunk"
  "env_sizeof_WAVHeader canonical_environment = 16"
  "env_as_WAVHeader canonical_environment = canonical_as_WAVHeader"
  "env_INC_RATE canonical_environment = 1/44100"
  by (simp_all add: canonical_environment_def)

lemma ParseWAV_good:
  "ParseWAV canonical_environment good_wav WAV_new = Inr ([], loaded_wav)"
  by (simp add: ParseWAV_def canonical_environment_fields good_fmt good_data good_header
      good_loop WAV_new_def loaded_wav_def Resampler_new_def Let_def
      del: ParseWAV_loop.simps)

lemma reload_keeps_resampler:
  "ParseWAV canonical_environment malformed_wav loaded_wav
     = Inr ([malformed_header_message], loaded_wav)"
  by (simp add: ParseWAV_def canonical_environment_fields malformed_fmt Let_def
      del: ParseWAV_loop.simps)

lemma loaded_wav_Process:
  "WAV_Process loaded_wav =
     Inr ((1/2, 1/2), \<lparr> m_Resampler = Some
         \<lparr> m_Data = [(1/2, 1/2), (1/4, - 1/4)], m_Index = 0, m_IndexIncrement = 1,
           m_PlaybackSpeed = 1, m_LoopStart = 0, m_LoopEnd = 1 \<rparr> \<rparr>)"
  by (simp add: WAV_Process_def loaded_wav_def Process_def to_uint64_def at_index_def
      Left_def Right_def Let_def)


lemma WAV_Process_n_unset:
  "m_Resampler w = None \<Longrightarrow> WAV_Process_n n w = Inr (replicate n silence, w)"
  by (induction n) (simp_all add: WAV_Process_def replicate_append_same)

text \<open>
  Claim C9 fails as stated: it holds for a generator whose resampler is unset, not
  for every generator. A generator that has parsed the well-formed container holds
  a Resampler. \<^verbatim>\<open>ParseWAV\<close> of the container with the 14-byte format chunk reports
  the error and returns with the generator unchanged, so the resampler is still set,
  and the next \<^verbatim>\<open>Process\<close> returns the first frame of the earlier container,
  \<open>(1/2, 1/2)\<close>, not silence.
\<close>

theorem ParseWAV_malformed_reload_counterexample:
  "ParseWAV canonical_environment good_wav WAV_new = Inr ([], loaded_wav)
   \<and> length (env_GetChunk canonical_environment malformed_wav ''fmt '')
        \<noteq> env_sizeof_WAVHeader canonical_environment
   \<and> ParseWAV canonical_environment malformed_wav loaded_wav
        = Inr ([malformed_header_message], loaded_wav)
   \<and> m_Resampler loaded_wav \<noteq> None
   \<and> WAV_Process loaded_wav = Inr ((1/2, 1/2), loaded_wav)
   \<and> (1/2, 1/2) \<noteq> silence"
proof -
  have "length (env_GetChunk canonical_environment malformed_wav ''fmt '')
        \<noteq> env_sizeof_WAVHeader canonical_environment"
    by (simp add: canonical_environment_fields malformed_fmt)
  moreover have "m_Resampler loaded_wav \<noteq> None"
    by (simp add: loaded_wav_def)
  moreover have "WAV_Process loaded_wav = Inr ((1/2, 1/2), loaded_wav)"
    using loaded_wav_Process by (simp add: loaded_wav_def)
  moreover have "(1/2, 1/2) \<noteq> silence"
    by (simp add: silence_def)
  ultimately show ?thesis
    using ParseWAV_good reload_keeps_resampler by blast
qed

text \<open>
  Claim C9, amended. If the format chunk of the parsed container has the wrong
  size, \<^verbatim>\<open>ParseWAV\<close> reports the error once and returns normally with the
  generator unchanged. If the generator's resampler was unset before the call, it is
  unset afterwards, and every subsequent call of \<^verbatim>\<open>Process\<close> returns the silent
  frame \<open>(0, 0)\<close> and leaves the generator unchanged.
\<close>

theorem ParseWAV_malformed:
  assumes "length (env_GetChunk env array ''fmt '') \<noteq> env_sizeof_WAVHeader env"
  shows "ParseWAV env array w = Inr ([malformed_header_message], w)
     \<and> (m_Resampler w = None \<longrightarrow>
          (\<forall>n. WAV_Process_n n w = Inr (replicate n silence, w)))"
  using assms WAV_Process_n_unset
  by (simp add: ParseWAV_def Let_def del: ParseWAV_loop.simps)

theorem ParseWAV_malformed_witness:
  "length (env_GetChunk canonical_environment malformed_wav ''fmt '')
        \<noteq> env_sizeof_WAVHeader canonical_environment
   \<and> m_Resampler WAV_new = None
   \<and> ParseWAV canonical_environment malformed_wav WAV_new
        = Inr ([malformed_header_message], WAV_new)
   \<and> WAV_Process_n 3 WAV_new = Inr (replicate 3 silence, WAV_new)"
proof -
  have a: "length (env_GetChunk canonical_environment malformed_wav ''fmt '')
        \<noteq> env_sizeof_WAVHeader canonical_environment"
    by (simp add: canonical_environment_fields malformed_fmt)
  have b: "m_Resampler WAV_new = None"
    by (simp add: WAV_new_def)
  from a b ParseWAV_malformed [OF a, of WAV_new] show ?thesis by blast
qed


end
